theory Spec2Isabelle
  imports Main
begin

section \<open>Python values and the operations the program applies to them\<close>

text \<open>
  Both Python files work on what \<^verbatim>\<open>requests.get(url).json()\<close> returns: an arbitrary
  decoded JSON document. A Python \<^verbatim>\<open>str\<close> is represented by its UTF-8 encoding, so
  the ASCII literals of the source are ordinary string literals; a lone surrogate, which a
  \<^verbatim>\<open>str\<close> can hold (the JSON decoder accepts one) and UTF-8 cannot encode, is written
  as the three bytes the encoding scheme would give it, of which the first is ED and the
  second is A0 or more. A \<^verbatim>\<open>float\<close> is
  represented by the text Python prints for it (its \<^verbatim>\<open>repr\<close>): the program never
  computes with a float, it only prints it and tests its truth value. A \<^verbatim>\<open>dict\<close>
  is an association list in insertion order.
\<close>

datatype json =
    JNull
  | JBool bool
  | JInt int
  | JFloat string
  | JStr string
  | JArr "json list"
  | JObj "(string \<times> json) list"

text \<open>
  Exceptions are values. Each carries its message, the text \<^verbatim>\<open>str(e)\<close> gives for
  it, except \<open>HTTPException\<close>, which carries the status code and the detail. \<open>Raised\<close> stands
  for an instance of \<^verbatim>\<open>Exception\<close> raised inside a library call (the HTTP client,
  the JSON decoder, the generative-text client).
\<close>

datatype pyexn =
    AttributeError string
  | KeyError string
  | IndexError string
  | TypeError string
  | Raised string
  | HTTPException nat string

subsection \<open>Truth value, type name\<close>

fun truthy :: "json \<Rightarrow> bool" where
  "truthy JNull = False"
| "truthy (JBool b) = b"
| "truthy (JInt n) = (n \<noteq> 0)"
| "truthy (JFloat r) = (r \<noteq> ''0.0'' \<and> r \<noteq> ''-0.0'')"
| "truthy (JStr s) = (s \<noteq> [])"
| "truthy (JArr xs) = (xs \<noteq> [])"
| "truthy (JObj kvs) = (kvs \<noteq> [])"

fun type_name :: "json \<Rightarrow> string" where
  "type_name JNull = ''NoneType''"
| "type_name (JBool b) = ''bool''"
| "type_name (JInt n) = ''int''"
| "type_name (JFloat r) = ''float''"
| "type_name (JStr s) = ''str''"
| "type_name (JArr xs) = ''list''"
| "type_name (JObj kvs) = ''dict''"

subsection \<open>Printing: \<^verbatim>\<open>str\<close> and \<^verbatim>\<open>repr\<close>\<close>

definition digit_char :: "nat \<Rightarrow> char" where
  "digit_char d = char_of (48 + d)"

fun nat_str :: "nat \<Rightarrow> string" where
  "nat_str n = (if n < 10 then [digit_char n] else nat_str (n div 10) @ [digit_char (n mod 10)])"

declare nat_str.simps [simp del]

text \<open>\<^verbatim>\<open>str(e)\<close>; an \<open>HTTPException\<close> prints as its status code, a colon and its detail.\<close>

fun exn_str :: "pyexn \<Rightarrow> string" where
  "exn_str (AttributeError m) = m"
| "exn_str (KeyError m) = m"
| "exn_str (IndexError m) = m"
| "exn_str (TypeError m) = m"
| "exn_str (Raised m) = m"
| "exn_str (HTTPException c d) = nat_str c @ '': '' @ d"

definition int_str :: "int \<Rightarrow> string" where
  "int_str i = (if i < 0 then CHR ''-'' # nat_str (nat (- i)) else nat_str (nat i))"

definition hex_char :: "nat \<Rightarrow> char" where
  "hex_char d = (if d < 10 then char_of (48 + d) else char_of (87 + d))"

text \<open>
  \<^verbatim>\<open>repr\<close> of a string: double quotes are the delimiter when the string has a single
  quote and no double quote, single quotes otherwise; the delimiter and the backslash are
  escaped, tab, newline and carriage return are written symbolically and the other ASCII
  control characters as \<^verbatim>\<open>\xNN\<close>. The bytes of a code point beyond ASCII are copied,
  which is what Python does for every printable one.
\<close>

definition repr_char :: "char \<Rightarrow> char \<Rightarrow> string" where
  "repr_char q c =
     (if c = q \<or> c = CHR 0x5C then [CHR 0x5C, c]
      else if c = CHR 0x09 then [CHR 0x5C, CHR ''t'']
      else if c = CHR 0x0A then [CHR 0x5C, CHR ''n'']
      else if c = CHR 0x0D then [CHR 0x5C, CHR ''r'']
      else if (of_char c :: nat) < 32 \<or> c = CHR 0x7F
        then [CHR 0x5C, CHR ''x'', hex_char (of_char c div 16), hex_char (of_char c mod 16)]
      else [c])"

definition repr_str :: "string \<Rightarrow> string" where
  "repr_str s =
     (let q = (if CHR 0x27 \<in> set s \<and> CHR 0x22 \<notin> set s then CHR 0x22 else CHR 0x27)
      in q # concat (map (repr_char q) s) @ [q])"

fun join :: "string \<Rightarrow> string list \<Rightarrow> string" where
  "join sep [] = []"
| "join sep [x] = x"
| "join sep (x # y # ys) = x @ sep @ join sep (y # ys)"

primrec py_repr :: "json \<Rightarrow> string" where
  "py_repr JNull = ''None''"
| "py_repr (JBool b) = (if b then ''True'' else ''False'')"
| "py_repr (JInt n) = int_str n"
| "py_repr (JFloat r) = r"
| "py_repr (JStr s) = repr_str s"
| "py_repr (JArr xs) = ''['' @ join '', '' (map py_repr xs) @ '']''"
| "py_repr (JObj kvs) =
     ''{'' @ join '', '' (map (\<lambda>kv. repr_str (fst kv) @ '': '' @ snd kv)
                              (map (map_prod (\<lambda>k. k) py_repr) kvs)) @ ''}''"

text \<open>What an f-string field \<^verbatim>\<open>{v}\<close> inserts: \<^verbatim>\<open>str(v)\<close>.\<close>

definition py_str :: "json \<Rightarrow> string" where
  "py_str v = (case v of JStr s \<Rightarrow> s | _ \<Rightarrow> py_repr v)"

subsection \<open>Strings: \<^verbatim>\<open>replace\<close>, \<^verbatim>\<open>in\<close>, the first character\<close>

definition starts_with :: "string \<Rightarrow> string \<Rightarrow> bool" where
  "starts_with s p = (take (length p) s = p)"

text \<open>
  \<^verbatim>\<open>s.replace(old, new)\<close> for a non-empty \<open>old\<close>: the occurrences are found left to
  right and do not overlap. The counter is the number of characters of a matched
  occurrence still to be skipped.
\<close>

fun replace_from :: "string \<Rightarrow> string \<Rightarrow> nat \<Rightarrow> string \<Rightarrow> string" where
  "replace_from old new k [] = []"
| "replace_from old new (Suc k) (c # cs) = replace_from old new k cs"
| "replace_from old new 0 (c # cs) =
     (if starts_with (c # cs) old then new @ replace_from old new (length old - 1) cs
      else c # replace_from old new 0 cs)"

definition str_replace :: "string \<Rightarrow> string \<Rightarrow> string \<Rightarrow> string" where
  "str_replace s old new = replace_from old new 0 s"

fun has_substring :: "string \<Rightarrow> string \<Rightarrow> bool" where
  "has_substring [] p = (p = [])"
| "has_substring (c # cs) p = (starts_with (c # cs) p \<or> has_substring cs p)"

text \<open>The number of bytes of the UTF-8 sequence that starts with the given byte.\<close>

definition utf8_len :: "char \<Rightarrow> nat" where
  "utf8_len c =
     (let b = (of_char c :: nat)
      in if b < 0xC0 then 1 else if b < 0xE0 then 2 else if b < 0xF0 then 3 else 4)"

subsection \<open>Attribute access, subscripts and membership, with what they raise\<close>

text \<open>
  The messages are those of CPython 3.12. \<open>py_get\<close> is \<^verbatim>\<open>v.get(key, default)\<close>,
  \<open>py_getitem\<close> is \<^verbatim>\<open>v[key]\<close> for a string key, \<open>py_getitem0\<close> is \<^verbatim>\<open>v[0]\<close> and
  \<open>py_in\<close> is \<^verbatim>\<open>key in v\<close> for a string key. The keys of a decoded JSON object
  are strings, so \<^verbatim>\<open>v[0]\<close> on a dict raises KeyError.
\<close>

definition not_subscriptable :: "json \<Rightarrow> pyexn" where
  "not_subscriptable v =
     TypeError ([CHR 0x27] @ type_name v @ [CHR 0x27] @ '' object is not subscriptable'')"

definition py_get :: "json \<Rightarrow> string \<Rightarrow> json \<Rightarrow> pyexn + json" where
  "py_get v key dflt =
     (case v of
        JObj kvs \<Rightarrow> Inr (case map_of kvs key of Some x \<Rightarrow> x | None \<Rightarrow> dflt)
      | _ \<Rightarrow> Inl (AttributeError ([CHR 0x27] @ type_name v @ [CHR 0x27]
                   @ '' object has no attribute '' @ [CHR 0x27] @ ''get'' @ [CHR 0x27])))"

definition py_getitem :: "json \<Rightarrow> string \<Rightarrow> pyexn + json" where
  "py_getitem v key =
     (case v of
        JObj kvs \<Rightarrow> (case map_of kvs key of Some x \<Rightarrow> Inr x | None \<Rightarrow> Inl (KeyError (repr_str key)))
      | JArr xs \<Rightarrow> Inl (TypeError ''list indices must be integers or slices, not str'')
      | JStr s \<Rightarrow> Inl (TypeError (''string indices must be integers, not ''
                     @ [CHR 0x27] @ ''str'' @ [CHR 0x27]))
      | _ \<Rightarrow> Inl (not_subscriptable v))"

definition py_getitem0 :: "json \<Rightarrow> pyexn + json" where
  "py_getitem0 v =
     (case v of
        JArr xs \<Rightarrow> (case xs of [] \<Rightarrow> Inl (IndexError ''list index out of range'') | x # _ \<Rightarrow> Inr x)
      | JStr s \<Rightarrow> (case s of [] \<Rightarrow> Inl (IndexError ''string index out of range'')
                   | c # _ \<Rightarrow> Inr (JStr (take (utf8_len c) s)))
      | JObj kvs \<Rightarrow> Inl (KeyError ''0'')
      | _ \<Rightarrow> Inl (not_subscriptable v))"

definition py_in :: "string \<Rightarrow> json \<Rightarrow> pyexn + bool" where
  "py_in key v =
     (case v of
        JObj kvs \<Rightarrow> Inr (key \<in> fst ` set kvs)
      | JArr xs \<Rightarrow> Inr (JStr key \<in> set xs)
      | JStr s \<Rightarrow> Inr (has_substring s key)
      | _ \<Rightarrow> Inl (TypeError (''argument of type '' @ [CHR 0x27] @ type_name v @ [CHR 0x27]
                   @ '' is not iterable'')))"

section \<open>The network\<close>

text \<open>
  \<^verbatim>\<open>requests.get(url)\<close> raises or returns a response; a response has a status code,
  and its \<^verbatim>\<open>.json()\<close> raises (the body is not JSON) or returns the decoded body.
  The program calls \<^verbatim>\<open>requests.get(url).json()\<close> and reads nothing else of the
  response.
\<close>

record response =
  status_code :: nat
  json_body :: "pyexn + json"

type_synonym web = "string \<Rightarrow> pyexn + response"

definition requests_get_json :: "web \<Rightarrow> string \<Rightarrow> pyexn + json" where
  "requests_get_json w url = (case w url of Inl e \<Rightarrow> Inl e | Inr r \<Rightarrow> json_body r)"

section \<open>main.py: the weather lookup\<close>

definition api_geo_url :: "string \<Rightarrow> string" where
  "api_geo_url city_name =
     (let city_quoted = str_replace city_name '' '' ''%20''
      in ''https://geocoding-api.open-meteo.com/v1/search?name='' @ city_quoted
         @ ''&count=1&language=en&format=json'')"

definition weather_url :: "json \<Rightarrow> json \<Rightarrow> string" where
  "weather_url lat lon =
     ''https://api.open-meteo.com/v1/forecast?latitude='' @ py_str lat
     @ ''&longitude='' @ py_str lon
     @ ''&daily=temperature_2m_max,temperature_2m_min,precipitation_probability_max&timezone=auto''"

text \<open>
  Sequencing: the second computation runs on the value of the first, unless the first
  raised.
\<close>

definition and_then :: "pyexn + 'a \<Rightarrow> ('a \<Rightarrow> pyexn + 'b) \<Rightarrow> pyexn + 'b" where
  "and_then m f = (case m of Inl e \<Rightarrow> Inl e | Inr x \<Rightarrow> f x)"

text \<open>
  The body of the \<^verbatim>\<open>try\<close> block of \<^verbatim>\<open>get_weather_data\<close>, statement by statement;
  \<open>Inl\<close> is an exception leaving the block. The two \<^verbatim>\<open>print\<close> calls only write to
  the log.
\<close>

definition get_weather_data_try :: "web \<Rightarrow> string \<Rightarrow> pyexn + json" where
  "get_weather_data_try w city_name =
     and_then (requests_get_json w (api_geo_url city_name)) (\<lambda>geo_res.
     and_then (py_get geo_res ''results'' JNull) (\<lambda>found.
     if \<not> truthy found then Inr JNull else
     and_then (py_getitem geo_res ''results'') (\<lambda>results.
     and_then (py_getitem0 results) (\<lambda>location.
     and_then (py_getitem location ''latitude'') (\<lambda>lat.
     and_then (py_getitem location ''longitude'') (\<lambda>lon.
     and_then (requests_get_json w (weather_url lat lon)) (\<lambda>weather_res.
     and_then (py_in ''daily'' weather_res) (\<lambda>has_daily.
     if \<not> has_daily then Inr JNull else
     and_then (py_getitem weather_res ''daily'') (\<lambda>daily1.
     and_then (py_getitem daily1 ''temperature_2m_max'') (\<lambda>maxs.
     and_then (py_getitem0 maxs) (\<lambda>temp_max.
     and_then (py_getitem weather_res ''daily'') (\<lambda>daily2.
     and_then (py_getitem daily2 ''temperature_2m_min'') (\<lambda>mins.
     and_then (py_getitem0 mins) (\<lambda>temp_min.
     and_then (py_getitem weather_res ''daily'') (\<lambda>daily3.
     and_then (py_getitem daily3 ''precipitation_probability_max'') (\<lambda>probs.
     and_then (py_getitem0 probs) (\<lambda>precip_prob.
     and_then (py_get location ''country'' (JStr [])) (\<lambda>country.
     Inr (JObj [(''city'', JStr city_name),
                (''country'', country),
                (''temp_max'', temp_max),
                (''temp_min'', temp_min),
                (''precip_prob'', precip_prob)])))))))))))))))))))"

text \<open>\<^verbatim>\<open>except Exception\<close>: whatever the block raised, the function returns None.\<close>

definition get_weather_data :: "web \<Rightarrow> string \<Rightarrow> pyexn + json" where
  "get_weather_data w city_name =
     (case get_weather_data_try w city_name of Inl e \<Rightarrow> Inr JNull | Inr v \<Rightarrow> Inr v)"

section \<open>main.py: the HTTP endpoints\<close>

text \<open>
  What the web framework sends for a handler's outcome. A returned value is written as
  JSON text with \<^verbatim>\<open>allow_nan=False\<close> and \<^verbatim>\<open>ensure_ascii=False\<close> and then encoded
  as UTF-8: this fails when the value holds a float that is not a number or is infinite
  (the decoder accepts \<^verbatim>\<open>NaN\<close> and \<^verbatim>\<open>Infinity\<close> from a provider, and reads a number
  too large for a float as infinite), or a string with a lone surrogate. A value that can
  be written is the body of a 200 response. A value that cannot, and any exception other
  than an \<open>HTTPException\<close>, gives the 500 response with a fixed text. An
  \<open>HTTPException\<close> becomes its status code with the detail under the key
  \<^verbatim>\<open>detail\<close>.
\<close>

fun has_surrogate :: "string \<Rightarrow> bool" where
  "has_surrogate (a # b # cs) =
     ((a = CHR 0xED \<and> (0xA0 :: nat) \<le> of_char b) \<or> has_surrogate (b # cs))"
| "has_surrogate cs = False"

primrec json_encodable :: "json \<Rightarrow> bool" where
  "json_encodable JNull = True"
| "json_encodable (JBool b) = True"
| "json_encodable (JInt n) = True"
| "json_encodable (JFloat r) = (r \<noteq> ''nan'' \<and> r \<noteq> ''inf'' \<and> r \<noteq> ''-inf'')"
| "json_encodable (JStr s) = (\<not> has_surrogate s)"
| "json_encodable (JArr xs) = list_all (\<lambda>b. b) (map json_encodable xs)"
| "json_encodable (JObj kvs) =
     list_all (\<lambda>kv. \<not> has_surrogate (fst kv) \<and> snd kv)
              (map (map_prod (\<lambda>k. k) json_encodable) kvs)"

record http_response =
  status :: nat
  content :: json

definition server_error :: http_response where
  "server_error = \<lparr>status = 500, content = JStr ''Internal Server Error''\<rparr>"

definition respond :: "pyexn + json \<Rightarrow> http_response" where
  "respond r =
     (case r of
        Inr v \<Rightarrow> (if json_encodable v then \<lparr>status = 200, content = v\<rparr> else server_error)
      | Inl (HTTPException c d) \<Rightarrow> \<lparr>status = c, content = JObj [(''detail'', JStr d)]\<rparr>
      | Inl _ \<Rightarrow> server_error)"

definition get_weather_endpoint :: "web \<Rightarrow> string \<Rightarrow> pyexn + json" where
  "get_weather_endpoint w city =
     and_then (get_weather_data w city) (\<lambda>data.
     if \<not> truthy data then Inl (HTTPException 404 ''City not found'')
     else Inr data)"






section \<open>weather\_agent/agent.py: the agent tool\<close>

definition tool_geo_url :: "string \<Rightarrow> string" where
  "tool_geo_url city =
     ''https://geocoding-api.open-meteo.com/v1/search?name='' @ city
     @ ''&count=1&language=en&format=json''"

text \<open>The degree sign of agent.py.\<close>

definition degree :: string where
  "degree = [CHR 0xC2, CHR 0xB0]"

definition weather_sentence :: "string \<Rightarrow> json \<Rightarrow> json \<Rightarrow> json \<Rightarrow> json \<Rightarrow> string" where
  "weather_sentence city country temp_max temp_min precip_prob =
     ''Weather in '' @ city @ '' ('' @ py_str country @ ''): Max '' @ py_str temp_max
     @ degree @ ''C, Min '' @ py_str temp_min @ degree @ ''C, Rain chance: ''
     @ py_str precip_prob @ ''%.''"

definition get_weather_try :: "web \<Rightarrow> string \<Rightarrow> string \<Rightarrow> pyexn + string" where
  "get_weather_try w city date =
     and_then (requests_get_json w (tool_geo_url city)) (\<lambda>geo_res.
     and_then (py_get geo_res ''results'' JNull) (\<lambda>found.
     if \<not> truthy found then Inr (''Could not find location for '' @ city) else
     and_then (py_getitem geo_res ''results'') (\<lambda>results.
     and_then (py_getitem0 results) (\<lambda>location.
     and_then (py_getitem location ''latitude'') (\<lambda>lat.
     and_then (py_getitem location ''longitude'') (\<lambda>lon.
     and_then (requests_get_json w (weather_url lat lon)) (\<lambda>weather_res.
     and_then (py_in ''daily'' weather_res) (\<lambda>has_daily.
     if \<not> has_daily then Inr ''Could not fetch weather data.'' else
     and_then (py_getitem weather_res ''daily'') (\<lambda>daily1.
     and_then (py_getitem daily1 ''temperature_2m_max'') (\<lambda>maxs.
     and_then (py_getitem0 maxs) (\<lambda>temp_max.
     and_then (py_getitem weather_res ''daily'') (\<lambda>daily2.
     and_then (py_getitem daily2 ''temperature_2m_min'') (\<lambda>mins.
     and_then (py_getitem0 mins) (\<lambda>temp_min.
     and_then (py_getitem weather_res ''daily'') (\<lambda>daily3.
     and_then (py_getitem daily3 ''precipitation_probability_max'') (\<lambda>probs.
     and_then (py_getitem0 probs) (\<lambda>precip_prob.
     and_then (py_get location ''country'' (JStr [])) (\<lambda>country.
     Inr (weather_sentence city country temp_max temp_min precip_prob)))))))))))))))))))"

definition get_weather :: "web \<Rightarrow> string \<Rightarrow> string \<Rightarrow> pyexn + string" where
  "get_weather w city date =
     (case get_weather_try w city date of
        Inl e \<Rightarrow> Inr (''Error fetching weather: '' @ exn_str e)
      | Inr s \<Rightarrow> Inr s)"

section \<open>The page's script: formatMarkdown\<close>

text \<open>
  A JavaScript string is represented by its UTF-8 encoding too. \<open>js_split\<close> is
  \<^verbatim>\<open>s.split(sep)\<close> for a non-empty separator; the counter is the number of
  characters of a matched separator still to be skipped.
\<close>

fun split_from :: "string \<Rightarrow> nat \<Rightarrow> string \<Rightarrow> string \<Rightarrow> string list" where
  "split_from sep k cur [] = [cur]"
| "split_from sep (Suc k) cur (c # cs) = split_from sep k cur cs"
| "split_from sep 0 cur (c # cs) =
     (if starts_with (c # cs) sep then cur # split_from sep (length sep - 1) [] cs
      else split_from sep 0 (cur @ [c]) cs)"

definition js_split :: "string \<Rightarrow> string \<Rightarrow> string list" where
  "js_split s sep = split_from sep 0 [] s"

text \<open>
  The white space and line terminators that \<^verbatim>\<open>trim()\<close> removes, each as its UTF-8
  sequence: U+0009 to U+000D, U+0020, U+00A0, U+1680, U+2000 to U+200A, U+2028, U+2029,
  U+202F, U+205F, U+3000 and U+FEFF.
\<close>

definition js_whitespace :: "string list" where
  "js_whitespace =
     [[CHR 0x09], [CHR 0x0A], [CHR 0x0B], [CHR 0x0C], [CHR 0x0D], [CHR 0x20],
      [CHR 0xC2, CHR 0xA0],
      [CHR 0xE1, CHR 0x9A, CHR 0x80],
      [CHR 0xE2, CHR 0x80, CHR 0x80], [CHR 0xE2, CHR 0x80, CHR 0x81],
      [CHR 0xE2, CHR 0x80, CHR 0x82], [CHR 0xE2, CHR 0x80, CHR 0x83],
      [CHR 0xE2, CHR 0x80, CHR 0x84], [CHR 0xE2, CHR 0x80, CHR 0x85],
      [CHR 0xE2, CHR 0x80, CHR 0x86], [CHR 0xE2, CHR 0x80, CHR 0x87],
      [CHR 0xE2, CHR 0x80, CHR 0x88], [CHR 0xE2, CHR 0x80, CHR 0x89],
      [CHR 0xE2, CHR 0x80, CHR 0x8A],
      [CHR 0xE2, CHR 0x80, CHR 0xA8], [CHR 0xE2, CHR 0x80, CHR 0xA9],
      [CHR 0xE2, CHR 0x80, CHR 0xAF],
      [CHR 0xE2, CHR 0x81, CHR 0x9F],
      [CHR 0xE3, CHR 0x80, CHR 0x80],
      [CHR 0xEF, CHR 0xBB, CHR 0xBF]]"

text \<open>The length of the white-space character a string starts with, 0 if there is none.\<close>

definition ws_len :: "string \<Rightarrow> nat" where
  "ws_len s = (case filter (starts_with s) js_whitespace of [] \<Rightarrow> 0 | x # _ \<Rightarrow> length x)"

fun trim_start_from :: "nat \<Rightarrow> string \<Rightarrow> string" where
  "trim_start_from k [] = []"
| "trim_start_from (Suc k) (c # cs) = trim_start_from k cs"
| "trim_start_from 0 (c # cs) =
     (if ws_len (c # cs) = 0 then c # cs else trim_start_from (ws_len (c # cs) - 1) cs)"

text \<open>The end is cut where everything that follows is white space.\<close>

fun trim_end :: "string \<Rightarrow> string" where
  "trim_end [] = []"
| "trim_end (c # cs) = (if trim_start_from 0 (c # cs) = [] then [] else c # trim_end cs)"

definition js_trim :: "string \<Rightarrow> string" where
  "js_trim s = trim_end (trim_start_from 0 s)"

text \<open>
  The inner loop over \<^verbatim>\<open>parts\<close>: \<open>i\<close> is the index of the first element of the
  remaining list, and \<^verbatim>\<open>i < parts.length - 1\<close> holds exactly when more elements follow.
\<close>

fun bold_loop :: "nat \<Rightarrow> string list \<Rightarrow> string \<Rightarrow> string" where
  "bold_loop i [] boldLine = boldLine"
| "bold_loop i (p # ps) boldLine =
     bold_loop (i + 1) ps
       (boldLine @ p @ (if ps \<noteq> [] then (if i mod 2 = 0 then ''<strong>'' else ''</strong>'')
                        else []))"

definition format_line :: "string \<Rightarrow> string" where
  "format_line line =
     (if starts_with line ''### '' then ''<h3>'' @ drop 4 line @ ''</h3>''
      else if starts_with (js_trim line) ''* '' then ''<li>'' @ drop 2 (js_trim line) @ ''</li>''
      else if starts_with (js_trim line) ''- '' then ''<li>'' @ drop 2 (js_trim line) @ ''</li>''
      else if has_substring line ''**'' then bold_loop 0 (js_split line ''**'') [] @ ''<br>''
      else if js_trim line = [] then ''<p></p>''
      else line @ ''<br>'')"

fun format_lines :: "string list \<Rightarrow> string \<Rightarrow> string" where
  "format_lines [] html = html"
| "format_lines (line # lines) html = format_lines lines (html @ format_line line)"

definition formatMarkdown :: "string \<Rightarrow> string" where
  "formatMarkdown text = (if text = [] then [] else format_lines (js_split text [CHR 0x0A]) [])"

section \<open>Reading the providers' documents\<close>

text \<open>
  The statements below name the data the two providers sent. \<open>first_result\<close> is the
  first entry of the \<^verbatim>\<open>results\<close> of the document the geocoder returned for a URL;
  \<open>daily_array\<close> is the array under a key of the \<^verbatim>\<open>daily\<close> section of the document
  the forecast provider returned for a pair of coordinates. Both are None when the request
  raised, the body did not decode, or the document has no such entry.
\<close>

definition first_result :: "web \<Rightarrow> string \<Rightarrow> json option" where
  "first_result w url =
     (case requests_get_json w url of
        Inr (JObj geo) \<Rightarrow>
          (case map_of geo ''results'' of
             Some results \<Rightarrow> (case py_getitem0 results of Inr loc \<Rightarrow> Some loc | Inl e \<Rightarrow> None)
           | None \<Rightarrow> None)
      | _ \<Rightarrow> None)"

definition daily_array :: "web \<Rightarrow> json \<Rightarrow> json \<Rightarrow> string \<Rightarrow> json option" where
  "daily_array w lat lon key =
     (case requests_get_json w (weather_url lat lon) of
        Inr (JObj wr) \<Rightarrow>
          (case map_of wr ''daily'' of Some (JObj daily) \<Rightarrow> map_of daily key | _ \<Rightarrow> None)
      | _ \<Rightarrow> None)"

definition daily_keys :: "string list" where
  "daily_keys = [''temperature_2m_max'', ''temperature_2m_min'', ''precipitation_probability_max'']"

text \<open>A forecast document without a daily section.\<close>

definition lacks_daily :: "json \<Rightarrow> bool" where
  "lacks_daily wr = (case wr of JObj kvs \<Rightarrow> map_of kvs ''daily'' = None | _ \<Rightarrow> True)"

text \<open>A geocoder document with zero results: no \<^verbatim>\<open>results\<close> key, or an empty list.\<close>

definition zero_results :: "json \<Rightarrow> bool" where
  "zero_results geo_res =
     (case geo_res of
        JObj kvs \<Rightarrow> map_of kvs ''results'' = None \<or> map_of kvs ''results'' = Some (JArr [])
      | _ \<Rightarrow> False)"

text \<open>The same network, answering with other status codes.\<close>

definition with_status :: "(string \<Rightarrow> nat) \<Rightarrow> web \<Rightarrow> web" where
  "with_status code w url =
     (case w url of Inl e \<Rightarrow> Inl e | Inr r \<Rightarrow> Inr (r\<lparr>status_code := code url\<rparr>))"

section \<open>Sample networks\<close>

text \<open>
  \<open>serve geo fc\<close> answers every request to the geocoding host with \<open>geo\<close> and
  every other request with \<open>fc\<close>; \<open>ok doc\<close> is a 200 response whose body decodes
  to \<open>doc\<close>; \<open>unreachable\<close> fails every request.
\<close>

definition serve :: "pyexn + response \<Rightarrow> pyexn + response \<Rightarrow> web" where
  "serve geo fc url =
     (if starts_with url ''https://geocoding-api.open-meteo.com/'' then geo else fc)"

definition ok :: "json \<Rightarrow> pyexn + response" where
  "ok doc = Inr \<lparr>status_code = 200, json_body = Inr doc\<rparr>"

definition unreachable :: web where
  "unreachable url = Inl (Raised ''connection refused'')"

definition place :: "string \<Rightarrow> json \<Rightarrow> json \<Rightarrow> string \<Rightarrow> (string \<times> json) list" where
  "place name lat lon country =
     [(''name'', JStr name), (''latitude'', lat), (''longitude'', lon), (''country'', JStr country)]"

definition geo_doc :: "json list \<Rightarrow> json" where
  "geo_doc results = JObj [(''results'', JArr results), (''generationtime_ms'', JFloat ''0.5'')]"

definition forecast_doc :: "json list \<Rightarrow> json list \<Rightarrow> json list \<Rightarrow> json" where
  "forecast_doc maxs mins probs =
     JObj [(''timezone'', JStr ''Europe/Paris''),
           (''daily'', JObj [(''time'', JArr [JStr ''2025-06-01'', JStr ''2025-06-02'']),
                             (''temperature_2m_max'', JArr maxs),
                             (''temperature_2m_min'', JArr mins),
                             (''precipitation_probability_max'', JArr probs)])]"

definition paris :: "(string \<times> json) list" where
  "paris = place ''Paris'' (JFloat ''48.85341'') (JFloat ''2.3488'') ''France''"

definition paris_web :: web where
  "paris_web =
     serve (ok (geo_doc [JObj paris]))
           (ok (forecast_doc [JFloat ''21.5'', JFloat ''19.0''] [JFloat ''12.3'', JInt 11]
                             [JInt 30, JInt 10]))"

definition no_daily_doc :: json where
  "no_daily_doc = JObj [(''error'', JBool True), (''reason'', JStr ''Latitude must be in range'')]"

definition no_daily_web :: web where
  "no_daily_web = serve (ok (geo_doc [JObj paris])) (ok no_daily_doc)"

definition empty_days_web :: web where
  "empty_days_web = serve (ok (geo_doc [JObj paris])) (ok (forecast_doc [] [] []))"

definition forecast_down_web :: web where
  "forecast_down_web = serve (ok (geo_doc [JObj paris])) (Inl (Raised ''Read timed out.''))"

definition no_results_web :: web where
  "no_results_web = serve (ok (JObj [(''generationtime_ms'', JFloat ''0.4'')])) (ok no_daily_doc)"

definition not_json_web :: web where
  "not_json_web =
     serve (Inr \<lparr>status_code = 200,
                 json_body = Inl (Raised ''Expecting value: line 1 column 1 (char 0)'')\<rparr>)
           (ok no_daily_doc)"

definition error_status_web :: web where
  "error_status_web =
     serve (Inr \<lparr>status_code = 500, json_body = Inr (geo_doc [JObj paris])\<rparr>)
           (ok (forecast_doc [JInt 21] [JInt 12] [JInt 30]))"

definition null_island :: "(string \<times> json) list" where
  "null_island = [(''name'', JStr ''Null Island''), (''latitude'', JInt 0), (''longitude'', JInt 0)]"

definition no_country_web :: web where
  "no_country_web =
     serve (ok (geo_doc [JObj null_island])) (ok (forecast_doc [JInt 29] [JInt 27] [JInt 80]))"

definition inverted_web :: web where
  "inverted_web =
     serve (ok (geo_doc [JObj paris])) (ok (forecast_doc [JInt 5, JInt 20] [JInt 10, JInt 8] [JNull]))"


definition nan_web :: web where
  "nan_web =
     serve (ok (geo_doc [JObj paris]))
           (ok (forecast_doc [JFloat ''nan''] [JFloat ''12.3''] [JInt 30]))"

definition no_longitude :: "(string \<times> json) list" where
  "no_longitude = [(''name'', JStr ''Paris''), (''latitude'', JFloat ''48.85341''),
                   (''country'', JStr ''France'')]"

definition no_longitude_web :: web where
  "no_longitude_web =
     serve (ok (geo_doc [JObj no_longitude])) (ok (forecast_doc [JInt 21] [JInt 12] [JInt 30]))"

text \<open>The 404 response of \<^verbatim>\<open>GET /weather/{city}\<close>.\<close>

definition city_not_found :: http_response where
  "city_not_found = \<lparr>status = 404, content = JObj [(''detail'', JStr ''City not found'')]\<rparr>"

section \<open>Basic facts\<close>

lemma and_then_Inl [simp]: "and_then (Inl e) f = Inl e"
  by (simp add: and_then_def)

lemma and_then_Inr [simp]: "and_then (Inr x) f = f x"
  by (simp add: and_then_def)

lemma and_then_eq_Inr: "and_then m f = Inr v \<longleftrightarrow> (\<exists>x. m = Inr x \<and> f x = Inr v)"
  by (cases m) simp_all

lemma py_getitem_eq_Inr:
  "py_getitem v k = Inr x \<longleftrightarrow> (\<exists>kvs. v = JObj kvs \<and> map_of kvs k = Some x)"
  by (cases v) (auto simp: py_getitem_def split: option.splits)

lemma py_get_eq_Inr:
  "py_get v k d = Inr x \<longleftrightarrow>
     (\<exists>kvs. v = JObj kvs \<and> x = (case map_of kvs k of Some y \<Rightarrow> y | None \<Rightarrow> d))"
  by (cases v) (auto simp: py_get_def)

lemma py_getitem0_truthy: "py_getitem0 v = Inr x \<Longrightarrow> truthy v"
  by (cases v) (auto simp: py_getitem0_def split: list.splits)

lemma py_in_obj: "py_in k (JObj kvs) = Inr (map_of kvs k \<noteq> None)"
  by (simp add: py_in_def map_of_eq_None_iff)

lemma first_result_eq_Some:
  "first_result w url = Some loc \<longleftrightarrow>
     (\<exists>geo results. requests_get_json w url = Inr (JObj geo)
        \<and> map_of geo ''results'' = Some results \<and> py_getitem0 results = Inr loc)"
  by (auto simp: first_result_def split: sum.splits json.splits option.splits)

lemma daily_array_eq_Some:
  "daily_array w lat lon key = Some a \<longleftrightarrow>
     (\<exists>wr daily. requests_get_json w (weather_url lat lon) = Inr (JObj wr)
        \<and> map_of wr ''daily'' = Some (JObj daily) \<and> map_of daily key = Some a)"
  by (auto simp: daily_array_def split: sum.splits json.splits option.splits)

section \<open>The lookup of main.py\<close>

lemma get_weather_data_try_success:
  assumes "get_weather_data_try w city = Inr v" and "v \<noteq> JNull"
  shows "\<exists>loc lat lon maxs mins probs tmax tmin pp.
           first_result w (api_geo_url city) = Some (JObj loc)
         \<and> map_of loc ''latitude'' = Some lat \<and> map_of loc ''longitude'' = Some lon
         \<and> daily_array w lat lon ''temperature_2m_max'' = Some maxs \<and> py_getitem0 maxs = Inr tmax
         \<and> daily_array w lat lon ''temperature_2m_min'' = Some mins \<and> py_getitem0 mins = Inr tmin
         \<and> daily_array w lat lon ''precipitation_probability_max'' = Some probs
         \<and> py_getitem0 probs = Inr pp
         \<and> v = JObj [(''city'', JStr city),
                     (''country'', case map_of loc ''country'' of Some c \<Rightarrow> c | None \<Rightarrow> JStr []),
                     (''temp_max'', tmax), (''temp_min'', tmin), (''precip_prob'', pp)]"
  using assms
  unfolding get_weather_data_try_def
  apply (clarsimp simp: and_then_eq_Inr py_getitem_eq_Inr py_get_eq_Inr split: if_splits)
  apply (clarsimp simp: first_result_eq_Some daily_array_eq_Some)
  done

lemma get_weather_data_try_direct:
  assumes "first_result w (api_geo_url city) = Some (JObj loc)"
    and "map_of loc ''latitude'' = Some lat" and "map_of loc ''longitude'' = Some lon"
    and "daily_array w lat lon ''temperature_2m_max'' = Some maxs" and "py_getitem0 maxs = Inr tmax"
    and "daily_array w lat lon ''temperature_2m_min'' = Some mins" and "py_getitem0 mins = Inr tmin"
    and "daily_array w lat lon ''precipitation_probability_max'' = Some probs"
    and "py_getitem0 probs = Inr pp"
  shows "get_weather_data_try w city =
           Inr (JObj [(''city'', JStr city),
                     (''country'', case map_of loc ''country'' of Some c \<Rightarrow> c | None \<Rightarrow> JStr []),
                     (''temp_max'', tmax), (''temp_min'', tmin), (''precip_prob'', pp)])"
  using assms
  unfolding get_weather_data_try_def
  apply (clarsimp simp: first_result_eq_Some daily_array_eq_Some)
  apply (simp add: py_get_def py_getitem_def py_in_obj py_getitem0_truthy)
  done

lemma get_weather_data_cases:
  "get_weather_data w city = Inr JNull \<or>
   (\<exists>v. get_weather_data w city = Inr v \<and> v \<noteq> JNull \<and> get_weather_data_try w city = Inr v)"
  by (cases "get_weather_data_try w city") (auto simp: get_weather_data_def)

lemma get_weather_data_success:
  assumes "get_weather_data w city = Inr v" and "v \<noteq> JNull"
  shows "get_weather_data_try w city = Inr v"
  using assms get_weather_data_cases [of w city] by auto

lemma daily_array_needs_document:
  assumes "daily_array w lat lon key = Some a"
  shows "\<exists>wr. requests_get_json w (weather_url lat lon) = Inr wr \<and> \<not> lacks_daily wr"
  using assms by (auto simp: daily_array_eq_Some lacks_daily_def)

lemma py_getitem0_nonempty: "py_getitem0 (JArr []) \<noteq> Inr x"
  by (simp add: py_getitem0_def)

text \<open>
  C2. \<open>get_weather_data\<close> never raises: for every network and every city it returns a
  value. It returns None when the geocoding request raises (the transport failed or the
  body did not decode), and, once the first geocoding result has given the coordinates,
  when the forecast request raises, when the forecast document has no daily section, or
  when one of the three daily arrays is empty, so that reading its index 0 fails.
\<close>

theorem get_weather_data_never_raises:
  "(\<exists>v. get_weather_data w city = Inr v)
   \<and> ((\<exists>e. requests_get_json w (api_geo_url city) = Inl e)
        \<longrightarrow> get_weather_data w city = Inr JNull)
   \<and> (first_result w (api_geo_url city) = Some (JObj loc)
        \<and> map_of loc ''latitude'' = Some lat \<and> map_of loc ''longitude'' = Some lon
        \<and> ((\<exists>e. requests_get_json w (weather_url lat lon) = Inl e)
           \<or> (\<exists>wr. requests_get_json w (weather_url lat lon) = Inr wr \<and> lacks_daily wr)
           \<or> (\<exists>k \<in> set daily_keys. daily_array w lat lon k = Some (JArr [])))
        \<longrightarrow> get_weather_data w city = Inr JNull)"
proof (intro conjI impI)
  show "\<exists>v. get_weather_data w city = Inr v"
    using get_weather_data_cases [of w city] by auto
next
  assume "\<exists>e. requests_get_json w (api_geo_url city) = Inl e"
  then show "get_weather_data w city = Inr JNull"
    by (auto simp: get_weather_data_def get_weather_data_try_def)
next
  assume a: "first_result w (api_geo_url city) = Some (JObj loc)
        \<and> map_of loc ''latitude'' = Some lat \<and> map_of loc ''longitude'' = Some lon
        \<and> ((\<exists>e. requests_get_json w (weather_url lat lon) = Inl e)
           \<or> (\<exists>wr. requests_get_json w (weather_url lat lon) = Inr wr \<and> lacks_daily wr)
           \<or> (\<exists>k \<in> set daily_keys. daily_array w lat lon k = Some (JArr [])))"
  show "get_weather_data w city = Inr JNull"
  proof (rule ccontr)
    assume "get_weather_data w city \<noteq> Inr JNull"
    then obtain v where v: "get_weather_data_try w city = Inr v" "v \<noteq> JNull"
      using get_weather_data_cases [of w city] by auto
    from get_weather_data_try_success [OF v] a
    obtain maxs mins probs tmax tmin pp where
      d: "daily_array w lat lon ''temperature_2m_max'' = Some maxs" "py_getitem0 maxs = Inr tmax"
         "daily_array w lat lon ''temperature_2m_min'' = Some mins" "py_getitem0 mins = Inr tmin"
         "daily_array w lat lon ''precipitation_probability_max'' = Some probs"
         "py_getitem0 probs = Inr pp"
      by auto
    from daily_array_needs_document [OF d(1)]
    obtain wr where wr: "requests_get_json w (weather_url lat lon) = Inr wr" "\<not> lacks_daily wr"
      by blast
    from a wr have "\<exists>k \<in> set daily_keys. daily_array w lat lon k = Some (JArr [])"
      by auto
    with d show False
      by (auto simp: daily_keys_def py_getitem0_nonempty)
  qed
qed


theorem get_weather_data_never_raises_witness:
  "requests_get_json unreachable (api_geo_url ''Paris'') = Inl (Raised ''connection refused'')
   \<and> get_weather_data unreachable ''Paris'' = Inr JNull
   \<and> requests_get_json forecast_down_web (weather_url (JFloat ''48.85341'') (JFloat ''2.3488''))
       = Inl (Raised ''Read timed out.'')
   \<and> get_weather_data forecast_down_web ''Paris'' = Inr JNull
   \<and> lacks_daily no_daily_doc
   \<and> get_weather_data no_daily_web ''Paris'' = Inr JNull
   \<and> daily_array empty_days_web (JFloat ''48.85341'') (JFloat ''2.3488'') ''temperature_2m_max''
       = Some (JArr [])
   \<and> get_weather_data empty_days_web ''Paris'' = Inr JNull"
proof -
  have lat: "map_of paris ''latitude'' = Some (JFloat ''48.85341'')"
    and lon: "map_of paris ''longitude'' = Some (JFloat ''2.3488'')"
    by code_simp+
  have u: "requests_get_json unreachable (api_geo_url ''Paris'') = Inl (Raised ''connection refused'')"
    by (simp add: requests_get_json_def unreachable_def)
  have f1: "first_result forecast_down_web (api_geo_url ''Paris'') = Some (JObj paris)"
    by code_simp
  have f2: "requests_get_json forecast_down_web (weather_url (JFloat ''48.85341'') (JFloat ''2.3488''))
       = Inl (Raised ''Read timed out.'')"
    by code_simp
  have n1: "first_result no_daily_web (api_geo_url ''Paris'') = Some (JObj paris)"
    by code_simp
  have n2: "requests_get_json no_daily_web (weather_url (JFloat ''48.85341'') (JFloat ''2.3488''))
       = Inr no_daily_doc"
    by code_simp
  have n3: "lacks_daily no_daily_doc"
    by code_simp
  have e1: "first_result empty_days_web (api_geo_url ''Paris'') = Some (JObj paris)"
    by code_simp
  have e2: "daily_array empty_days_web (JFloat ''48.85341'') (JFloat ''2.3488'') ''temperature_2m_max''
       = Some (JArr [])"
    by code_simp
  have k: "''temperature_2m_max'' \<in> set daily_keys"
    by (simp add: daily_keys_def)
  show ?thesis
    using get_weather_data_never_raises [of unreachable "''Paris''"]
      get_weather_data_never_raises [of forecast_down_web "''Paris''" paris "JFloat ''48.85341''" "JFloat ''2.3488''"]
      get_weather_data_never_raises [of no_daily_web "''Paris''" paris "JFloat ''48.85341''" "JFloat ''2.3488''"]
      get_weather_data_never_raises [of empty_days_web "''Paris''" paris "JFloat ''48.85341''" "JFloat ''2.3488''"]
      lat lon u f1 f2 n1 n2 n3 e1 e2 k
    by blast
qed

section \<open>The agent tool\<close>

lemma get_weather_try_direct:
  assumes "first_result w (tool_geo_url city) = Some (JObj loc)"
    and "map_of loc ''latitude'' = Some lat" and "map_of loc ''longitude'' = Some lon"
    and "daily_array w lat lon ''temperature_2m_max'' = Some maxs" and "py_getitem0 maxs = Inr tmax"
    and "daily_array w lat lon ''temperature_2m_min'' = Some mins" and "py_getitem0 mins = Inr tmin"
    and "daily_array w lat lon ''precipitation_probability_max'' = Some probs"
    and "py_getitem0 probs = Inr pp"
  shows "get_weather_try w city date =
           Inr (weather_sentence city (case map_of loc ''country'' of Some c \<Rightarrow> c | None \<Rightarrow> JStr [])
                  tmax tmin pp)"
  using assms
  unfolding get_weather_try_def
  apply (clarsimp simp: first_result_eq_Some daily_array_eq_Some)
  apply (simp add: py_get_def py_getitem_def py_in_obj py_getitem0_truthy)
  done

lemma get_weather_of_try:
  "get_weather w city date =
     Inr (case get_weather_try w city date of
            Inl e \<Rightarrow> ''Error fetching weather: '' @ exn_str e | Inr s \<Rightarrow> s)"
  by (simp add: get_weather_def split: sum.splits)

lemma get_weather_try_date: "get_weather_try w city d1 = get_weather_try w city d2"
  by (simp add: get_weather_try_def)

lemma zero_results_not_truthy:
  assumes "zero_results geo_res"
  shows "\<exists>found. py_get geo_res ''results'' JNull = Inr found \<and> \<not> truthy found"
  using assms by (cases geo_res) (auto simp: zero_results_def py_get_def)

text \<open>
  C8. The agent tool \<open>get_weather\<close> returns a string for every network, city and date
  and never raises: an exception raised anywhere in its body becomes the sentence
  "Error fetching weather: " followed by the exception's message, a geocoder document with
  zero results becomes "Could not find location for " followed by the city, and a forecast
  document without a daily section becomes "Could not fetch weather data.".
\<close>

theorem get_weather_always_returns_string:
  "(\<exists>s. get_weather w city date = Inr s)
   \<and> (get_weather_try w city date = Inl e
        \<longrightarrow> get_weather w city date = Inr (''Error fetching weather: '' @ exn_str e))
   \<and> (requests_get_json w (tool_geo_url city) = Inr geo_res \<and> zero_results geo_res
        \<longrightarrow> get_weather w city date = Inr (''Could not find location for '' @ city))
   \<and> (first_result w (tool_geo_url city) = Some (JObj loc)
        \<and> map_of loc ''latitude'' = Some lat \<and> map_of loc ''longitude'' = Some lon
        \<and> requests_get_json w (weather_url lat lon) = Inr (JObj wr) \<and> lacks_daily (JObj wr)
        \<longrightarrow> get_weather w city date = Inr ''Could not fetch weather data.'')"
proof (intro conjI impI)
  show "\<exists>s. get_weather w city date = Inr s"
    by (simp add: get_weather_of_try)
next
  assume "get_weather_try w city date = Inl e"
  then show "get_weather w city date = Inr (''Error fetching weather: '' @ exn_str e)"
    by (simp add: get_weather_of_try)
next
  assume a: "requests_get_json w (tool_geo_url city) = Inr geo_res \<and> zero_results geo_res"
  then obtain found where "py_get geo_res ''results'' JNull = Inr found" "\<not> truthy found"
    using zero_results_not_truthy by blast
  with a have "get_weather_try w city date = Inr (''Could not find location for '' @ city)"
    by (simp add: get_weather_try_def)
  then show "get_weather w city date = Inr (''Could not find location for '' @ city)"
    by (simp add: get_weather_of_try)
next
  assume a: "first_result w (tool_geo_url city) = Some (JObj loc)
        \<and> map_of loc ''latitude'' = Some lat \<and> map_of loc ''longitude'' = Some lon
        \<and> requests_get_json w (weather_url lat lon) = Inr (JObj wr) \<and> lacks_daily (JObj wr)"
  then have "get_weather_try w city date = Inr ''Could not fetch weather data.''"
    unfolding get_weather_try_def
    apply (clarsimp simp: first_result_eq_Some lacks_daily_def)
    apply (simp add: py_get_def py_getitem_def py_in_obj py_getitem0_truthy)
    done
  then show "get_weather w city date = Inr ''Could not fetch weather data.''"
    by (simp add: get_weather_of_try)
qed

theorem get_weather_always_returns_string_witness:
  "get_weather_try unreachable ''Paris'' ''Sunday'' = Inl (Raised ''connection refused'')
   \<and> get_weather unreachable ''Paris'' ''Sunday'' = Inr ''Error fetching weather: connection refused''
   \<and> zero_results (JObj [(''generationtime_ms'', JFloat ''0.4'')])
   \<and> get_weather no_results_web ''Atlantis'' ''Sunday'' = Inr ''Could not find location for Atlantis''
   \<and> lacks_daily no_daily_doc
   \<and> get_weather no_daily_web ''Paris'' ''Sunday'' = Inr ''Could not fetch weather data.''"
proof -
  have u: "get_weather_try unreachable ''Paris'' ''Sunday'' = Inl (Raised ''connection refused'')"
    by code_simp
  have z1: "requests_get_json no_results_web (tool_geo_url ''Atlantis'')
              = Inr (JObj [(''generationtime_ms'', JFloat ''0.4'')])"
    by code_simp
  have z2: "zero_results (JObj [(''generationtime_ms'', JFloat ''0.4'')])"
    by code_simp
  have n1: "first_result no_daily_web (tool_geo_url ''Paris'') = Some (JObj paris)"
    by code_simp
  have lat: "map_of paris ''latitude'' = Some (JFloat ''48.85341'')"
    and lon: "map_of paris ''longitude'' = Some (JFloat ''2.3488'')"
    by code_simp+
  have n2: "requests_get_json no_daily_web (weather_url (JFloat ''48.85341'') (JFloat ''2.3488''))
       = Inr no_daily_doc"
    by code_simp
  have n3: "lacks_daily no_daily_doc"
    by code_simp
  have n4: "no_daily_doc = JObj [(''error'', JBool True), (''reason'', JStr ''Latitude must be in range'')]"
    by (simp add: no_daily_doc_def)
  show ?thesis
    using get_weather_always_returns_string [of unreachable "''Paris''" "''Sunday''" "Raised ''connection refused''"]
      get_weather_always_returns_string [of no_results_web "''Atlantis''" "''Sunday''" _ "JObj [(''generationtime_ms'', JFloat ''0.4'')]"]
      get_weather_always_returns_string [of no_daily_web "''Paris''" "''Sunday''" _ _ paris "JFloat ''48.85341''" "JFloat ''2.3488''"
          "[(''error'', JBool True), (''reason'', JStr ''Latitude must be in range'')]"]
      u z1 z2 n1 n2 n3 lat lon n4
    by simp
qed

text \<open>
  C9. The date given to \<open>get_weather\<close> has no influence on what it returns: two calls
  with the same network and city and any two dates return the same string. When the
  lookup goes through, the sentence is built from the first element of each daily array,
  whatever the date.
\<close>

theorem get_weather_ignores_date:
  "get_weather w city d1 = get_weather w city d2
   \<and> (first_result w (tool_geo_url city) = Some (JObj loc)
        \<and> map_of loc ''latitude'' = Some lat \<and> map_of loc ''longitude'' = Some lon
        \<and> daily_array w lat lon ''temperature_2m_max'' = Some (JArr (tmax # maxs))
        \<and> daily_array w lat lon ''temperature_2m_min'' = Some (JArr (tmin # mins))
        \<and> daily_array w lat lon ''precipitation_probability_max'' = Some (JArr (pp # probs))
      \<longrightarrow> get_weather w city d1 =
            Inr (weather_sentence city
                   (case map_of loc ''country'' of Some c \<Rightarrow> c | None \<Rightarrow> JStr []) tmax tmin pp))"
proof (intro conjI impI)
  show "get_weather w city d1 = get_weather w city d2"
    by (simp add: get_weather_of_try get_weather_try_date [of w city d1 d2])
next
  assume a: "first_result w (tool_geo_url city) = Some (JObj loc)
        \<and> map_of loc ''latitude'' = Some lat \<and> map_of loc ''longitude'' = Some lon
        \<and> daily_array w lat lon ''temperature_2m_max'' = Some (JArr (tmax # maxs))
        \<and> daily_array w lat lon ''temperature_2m_min'' = Some (JArr (tmin # mins))
        \<and> daily_array w lat lon ''precipitation_probability_max'' = Some (JArr (pp # probs))"
  have "get_weather_try w city d1 =
           Inr (weather_sentence city (case map_of loc ''country'' of Some c \<Rightarrow> c | None \<Rightarrow> JStr [])
                  tmax tmin pp)"
    by (rule get_weather_try_direct [where maxs = "JArr (tmax # maxs)" and mins = "JArr (tmin # mins)"
          and probs = "JArr (pp # probs)" and lat = lat and lon = lon])
       (use a in \<open>simp_all add: py_getitem0_def\<close>)
  then show "get_weather w city d1 =
            Inr (weather_sentence city
                   (case map_of loc ''country'' of Some c \<Rightarrow> c | None \<Rightarrow> JStr []) tmax tmin pp)"
    by (simp add: get_weather_of_try)
qed

theorem get_weather_ignores_date_witness:
  "get_weather paris_web ''Paris'' ''Sunday'' = get_weather paris_web ''Paris'' ''2025-06-02''
   \<and> daily_array paris_web (JFloat ''48.85341'') (JFloat ''2.3488'') ''temperature_2m_max''
       = Some (JArr [JFloat ''21.5'', JFloat ''19.0''])
   \<and> get_weather paris_web ''Paris'' ''2025-06-02'' =
       Inr (''Weather in Paris (France): Max 21.5'' @ degree @ ''C, Min 12.3'' @ degree
            @ ''C, Rain chance: 30%.'')"
proof -
  have g: "first_result paris_web (tool_geo_url ''Paris'') = Some (JObj paris)"
    by code_simp
  have lat: "map_of paris ''latitude'' = Some (JFloat ''48.85341'')"
    and lon: "map_of paris ''longitude'' = Some (JFloat ''2.3488'')"
    and co: "map_of paris ''country'' = Some (JStr ''France'')"
    by code_simp+
  have d1: "daily_array paris_web (JFloat ''48.85341'') (JFloat ''2.3488'') ''temperature_2m_max''
       = Some (JArr [JFloat ''21.5'', JFloat ''19.0''])"
    by code_simp
  have d2: "daily_array paris_web (JFloat ''48.85341'') (JFloat ''2.3488'') ''temperature_2m_min''
       = Some (JArr [JFloat ''12.3'', JInt 11])"
    by code_simp
  have d3: "daily_array paris_web (JFloat ''48.85341'') (JFloat ''2.3488'')
              ''precipitation_probability_max'' = Some (JArr [JInt 30, JInt 10])"
    by code_simp
  have s: "weather_sentence ''Paris'' (JStr ''France'') (JFloat ''21.5'') (JFloat ''12.3'') (JInt 30)
       = ''Weather in Paris (France): Max 21.5'' @ degree @ ''C, Min 12.3'' @ degree
            @ ''C, Rain chance: 30%.''"
    by code_simp
  show ?thesis
    using get_weather_ignores_date [of paris_web "''Paris''" "''Sunday''" "''2025-06-02''"]
      get_weather_ignores_date [of paris_web "''Paris''" "''2025-06-02''" "''Sunday''" paris
         "JFloat ''48.85341''" "JFloat ''2.3488''" "JFloat ''21.5''" "[JFloat ''19.0'']"
         "JFloat ''12.3''" "[JInt 11]" "JInt 30" "[JInt 10]"]
      g lat lon co d1 d2 d3 s
    by simp
qed

section \<open>The endpoint \<^verbatim>\<open>GET /weather/{city}\<close>\<close>

lemma summary_truthy:
  assumes "get_weather_data w city = Inr v" and "v \<noteq> JNull"
  shows "truthy v"
  using get_weather_data_try_success [OF get_weather_data_success [OF assms] assms(2)] by auto

lemma get_weather_endpoint_cases:
  "get_weather_data w city = Inr JNull \<and> get_weather_endpoint w city = Inl (HTTPException 404 ''City not found'')
   \<or> (\<exists>v. get_weather_data w city = Inr v \<and> v \<noteq> JNull \<and> get_weather_endpoint w city = Inr v)"
proof -
  consider "get_weather_data w city = Inr JNull"
    | v where "get_weather_data w city = Inr v" "v \<noteq> JNull"
    using get_weather_data_cases [of w city] by blast
  then show ?thesis
  proof cases
    case 1
    then show ?thesis by (simp add: get_weather_endpoint_def)
  next
    case 2
    then show ?thesis using summary_truthy [OF 2] by (simp add: get_weather_endpoint_def)
  qed
qed

lemma requests_get_json_with_status:
  "requests_get_json (with_status code w) url = requests_get_json w url"
  by (simp add: requests_get_json_def with_status_def split: sum.splits)

lemma get_weather_data_with_status:
  "get_weather_data (with_status code w) city = get_weather_data w city"
  by (simp add: get_weather_data_def get_weather_data_try_def requests_get_json_with_status
        cong: if_cong)

lemma zero_results_None:
  assumes "requests_get_json w (api_geo_url city) = Inr geo_res" and "zero_results geo_res"
  shows "get_weather_data w city = Inr JNull"
proof -
  obtain found where "py_get geo_res ''results'' JNull = Inr found" "\<not> truthy found"
    using zero_results_not_truthy [OF assms(2)] by blast
  with assms(1) show ?thesis
    by (simp add: get_weather_data_def get_weather_data_try_def)
qed

lemma geocoding_raises_None:
  assumes "requests_get_json w (api_geo_url city) = Inl e"
  shows "get_weather_data w city = Inr JNull"
  using assms by (simp add: get_weather_data_def get_weather_data_try_def)

text \<open>
  C1, as the code has it. \<^verbatim>\<open>GET /weather/{city}\<close> answers 404 with the body
  \<^verbatim>\<open>{"detail": "City not found"}\<close> exactly when the lookup returns None. It answers
  200 with the summary exactly when the lookup returns a summary that can be written as
  JSON, and 500 when the lookup returns a summary that cannot. A geocoding request that
  raises, a geocoding body that does not decode and a geocoder document with zero results
  all end in that 404. The status code of an upstream response is never read: the same
  network answering with any other status codes gives the same outcome.
\<close>

theorem get_weather_endpoint_outcomes:
  "(get_weather_data w city = Inr JNull \<longleftrightarrow> respond (get_weather_endpoint w city) = city_not_found)
   \<and> (get_weather_data w city = Inr v \<and> v \<noteq> JNull \<and> json_encodable v
        \<longleftrightarrow> respond (get_weather_endpoint w city) = \<lparr>status = 200, content = v\<rparr>)
   \<and> (get_weather_data w city = Inr v \<and> v \<noteq> JNull \<and> \<not> json_encodable v
        \<longrightarrow> respond (get_weather_endpoint w city) = server_error)
   \<and> ((\<exists>e. w (api_geo_url city) = Inl e)
        \<longrightarrow> respond (get_weather_endpoint w city) = city_not_found)
   \<and> ((\<exists>r e. w (api_geo_url city) = Inr r \<and> json_body r = Inl e)
        \<longrightarrow> respond (get_weather_endpoint w city) = city_not_found)
   \<and> ((\<exists>geo_res. requests_get_json w (api_geo_url city) = Inr geo_res \<and> zero_results geo_res)
        \<longrightarrow> respond (get_weather_endpoint w city) = city_not_found)
   \<and> get_weather_endpoint (with_status code w) city = get_weather_endpoint w city"
proof -
  have nf: "respond (get_weather_endpoint w city) = city_not_found"
    if "get_weather_data w city = Inr JNull"
    using that by (simp add: get_weather_endpoint_def respond_def city_not_found_def)
  have c1: "get_weather_data w city = Inr JNull \<longleftrightarrow> respond (get_weather_endpoint w city) = city_not_found"
    using get_weather_endpoint_cases [of w city]
    by (auto simp: respond_def city_not_found_def server_error_def split: if_splits)
  have c2: "get_weather_data w city = Inr v \<and> v \<noteq> JNull \<and> json_encodable v
        \<longleftrightarrow> respond (get_weather_endpoint w city) = \<lparr>status = 200, content = v\<rparr>"
    using get_weather_endpoint_cases [of w city]
    by (auto simp: respond_def server_error_def split: if_splits)
  have c2': "respond (get_weather_endpoint w city) = server_error"
    if "get_weather_data w city = Inr v \<and> v \<noteq> JNull \<and> \<not> json_encodable v"
    using get_weather_endpoint_cases [of w city] that
    by (auto simp: respond_def)
  have c3: "respond (get_weather_endpoint w city) = city_not_found"
    if "\<exists>e. w (api_geo_url city) = Inl e"
  proof -
    from that obtain e where "w (api_geo_url city) = Inl e" by blast
    then have "requests_get_json w (api_geo_url city) = Inl e"
      by (simp add: requests_get_json_def)
    then show ?thesis by (rule nf [OF geocoding_raises_None])
  qed
  have c4: "respond (get_weather_endpoint w city) = city_not_found"
    if "\<exists>r e. w (api_geo_url city) = Inr r \<and> json_body r = Inl e"
  proof -
    from that obtain r e where "w (api_geo_url city) = Inr r" "json_body r = Inl e" by blast
    then have "requests_get_json w (api_geo_url city) = Inl e"
      by (simp add: requests_get_json_def)
    then show ?thesis by (rule nf [OF geocoding_raises_None])
  qed
  have c5: "respond (get_weather_endpoint w city) = city_not_found"
    if "\<exists>geo_res. requests_get_json w (api_geo_url city) = Inr geo_res \<and> zero_results geo_res"
  proof -
    from that obtain geo_res where
      "requests_get_json w (api_geo_url city) = Inr geo_res" "zero_results geo_res" by blast
    then show ?thesis by (rule nf [OF zero_results_None])
  qed
  have c6: "get_weather_endpoint (with_status code w) city = get_weather_endpoint w city"
    by (simp add: get_weather_endpoint_def get_weather_data_with_status)
  from c1 c2 c2' c3 c4 c5 c6 show ?thesis by blast
qed

text \<open>
  C1 as stated fails for a non-2xx status: the geocoder answers with status 500 and a
  body that carries results, and the endpoint answers 200 with a summary.
\<close>

theorem non_2xx_geocoding_counterexample:
  "error_status_web (api_geo_url ''Paris'')
     = Inr \<lparr>status_code = 500, json_body = Inr (geo_doc [JObj paris])\<rparr>
   \<and> respond (get_weather_endpoint error_status_web ''Paris'')
     = \<lparr>status = 200,
        content = JObj [(''city'', JStr ''Paris''), (''country'', JStr ''France''),
                        (''temp_max'', JInt 21), (''temp_min'', JInt 12), (''precip_prob'', JInt 30)]\<rparr>"
  by code_simp

theorem get_weather_endpoint_outcomes_witness:
  "unreachable (api_geo_url ''Paris'') = Inl (Raised ''connection refused'')
   \<and> respond (get_weather_endpoint unreachable ''Paris'') = city_not_found
   \<and> not_json_web (api_geo_url ''Paris'')
       = Inr \<lparr>status_code = 200,
              json_body = Inl (Raised ''Expecting value: line 1 column 1 (char 0)'')\<rparr>
   \<and> respond (get_weather_endpoint not_json_web ''Paris'') = city_not_found
   \<and> zero_results (JObj [(''generationtime_ms'', JFloat ''0.4'')])
   \<and> respond (get_weather_endpoint no_results_web ''Atlantis'') = city_not_found
   \<and> get_weather_data no_results_web ''Atlantis'' = Inr JNull
   \<and> get_weather_data paris_web ''Paris''
       = Inr (JObj [(''city'', JStr ''Paris''), (''country'', JStr ''France''),
                    (''temp_max'', JFloat ''21.5''), (''temp_min'', JFloat ''12.3''),
                    (''precip_prob'', JInt 30)])
   \<and> json_encodable (JObj [(''city'', JStr ''Paris''), (''country'', JStr ''France''),
                    (''temp_max'', JFloat ''21.5''), (''temp_min'', JFloat ''12.3''),
                    (''precip_prob'', JInt 30)])
   \<and> respond (get_weather_endpoint paris_web ''Paris'')
       = \<lparr>status = 200,
          content = JObj [(''city'', JStr ''Paris''), (''country'', JStr ''France''),
                    (''temp_max'', JFloat ''21.5''), (''temp_min'', JFloat ''12.3''),
                    (''precip_prob'', JInt 30)]\<rparr>
   \<and> get_weather_data nan_web ''Paris''
       = Inr (JObj [(''city'', JStr ''Paris''), (''country'', JStr ''France''),
                    (''temp_max'', JFloat ''nan''), (''temp_min'', JFloat ''12.3''),
                    (''precip_prob'', JInt 30)])
   \<and> \<not> json_encodable (JObj [(''city'', JStr ''Paris''), (''country'', JStr ''France''),
                    (''temp_max'', JFloat ''nan''), (''temp_min'', JFloat ''12.3''),
                    (''precip_prob'', JInt 30)])
   \<and> respond (get_weather_endpoint nan_web ''Paris'') = server_error"
proof -
  have u: "unreachable (api_geo_url ''Paris'') = Inl (Raised ''connection refused'')"
    by (simp add: unreachable_def)
  have j: "not_json_web (api_geo_url ''Paris'')
       = Inr \<lparr>status_code = 200,
              json_body = Inl (Raised ''Expecting value: line 1 column 1 (char 0)'')\<rparr>"
    by code_simp
  have z1: "requests_get_json no_results_web (api_geo_url ''Atlantis'')
              = Inr (JObj [(''generationtime_ms'', JFloat ''0.4'')])"
    by code_simp
  have z2: "zero_results (JObj [(''generationtime_ms'', JFloat ''0.4'')])"
    by code_simp
  have p: "get_weather_data paris_web ''Paris''
       = Inr (JObj [(''city'', JStr ''Paris''), (''country'', JStr ''France''),
                    (''temp_max'', JFloat ''21.5''), (''temp_min'', JFloat ''12.3''),
                    (''precip_prob'', JInt 30)])"
    by code_simp
  have pe: "json_encodable (JObj [(''city'', JStr ''Paris''), (''country'', JStr ''France''),
                    (''temp_max'', JFloat ''21.5''), (''temp_min'', JFloat ''12.3''),
                    (''precip_prob'', JInt 30)])"
    by code_simp
  have n: "get_weather_data nan_web ''Paris''
       = Inr (JObj [(''city'', JStr ''Paris''), (''country'', JStr ''France''),
                    (''temp_max'', JFloat ''nan''), (''temp_min'', JFloat ''12.3''),
                    (''precip_prob'', JInt 30)])"
    by code_simp
  have ne: "\<not> json_encodable (JObj [(''city'', JStr ''Paris''), (''country'', JStr ''France''),
                    (''temp_max'', JFloat ''nan''), (''temp_min'', JFloat ''12.3''),
                    (''precip_prob'', JInt 30)])"
    by code_simp
  have a: "respond (get_weather_endpoint unreachable ''Paris'') = city_not_found"
    using get_weather_endpoint_outcomes [of unreachable "''Paris''"] u by blast
  have b: "respond (get_weather_endpoint not_json_web ''Paris'') = city_not_found"
    using get_weather_endpoint_outcomes [of not_json_web "''Paris''"] j by force
  have c: "respond (get_weather_endpoint no_results_web ''Atlantis'') = city_not_found"
    using get_weather_endpoint_outcomes [of no_results_web "''Atlantis''"] z1 z2 by blast
  have d: "get_weather_data no_results_web ''Atlantis'' = Inr JNull"
    using get_weather_endpoint_outcomes [of no_results_web "''Atlantis''"] c by blast
  have e: "respond (get_weather_endpoint paris_web ''Paris'')
       = \<lparr>status = 200,
          content = JObj [(''city'', JStr ''Paris''), (''country'', JStr ''France''),
                    (''temp_max'', JFloat ''21.5''), (''temp_min'', JFloat ''12.3''),
                    (''precip_prob'', JInt 30)]\<rparr>"
    using get_weather_endpoint_outcomes [of paris_web "''Paris''"
        "JObj [(''city'', JStr ''Paris''), (''country'', JStr ''France''),
                    (''temp_max'', JFloat ''21.5''), (''temp_min'', JFloat ''12.3''),
                    (''precip_prob'', JInt 30)]"] p pe by blast
  have f: "respond (get_weather_endpoint nan_web ''Paris'') = server_error"
    using get_weather_endpoint_outcomes [of nan_web "''Paris''"
        "JObj [(''city'', JStr ''Paris''), (''country'', JStr ''France''),
                    (''temp_max'', JFloat ''nan''), (''temp_min'', JFloat ''12.3''),
                    (''precip_prob'', JInt 30)]"] n ne by blast
  show ?thesis
    by (intro conjI u a j b z2 c d p pe e n ne f)
qed

section \<open>What a summary holds\<close>

lemma get_weather_data_direct:
  assumes "first_result w (api_geo_url city) = Some (JObj loc)"
    and "map_of loc ''latitude'' = Some lat" and "map_of loc ''longitude'' = Some lon"
    and "daily_array w lat lon ''temperature_2m_max'' = Some maxs" and "py_getitem0 maxs = Inr tmax"
    and "daily_array w lat lon ''temperature_2m_min'' = Some mins" and "py_getitem0 mins = Inr tmin"
    and "daily_array w lat lon ''precipitation_probability_max'' = Some probs"
    and "py_getitem0 probs = Inr pp"
  shows "get_weather_data w city =
           Inr (JObj [(''city'', JStr city),
                     (''country'', case map_of loc ''country'' of Some c \<Rightarrow> c | None \<Rightarrow> JStr []),
                     (''temp_max'', tmax), (''temp_min'', tmin), (''precip_prob'', pp)])"
  by (simp add: get_weather_data_def get_weather_data_try_direct [OF assms])

text \<open>
  C3, as the code has it. A summary that the lookup returns has exactly the five fields
  city, country, temp\_max, temp\_min and precip\_prob: the city is the caller's string,
  temp\_max, temp\_min and precip\_prob are the index-0 elements of the three daily arrays
  of the forecast for the coordinates of the first geocoding result, and the country is
  the one of that result, or the empty string when that result has none. When the first
  geocoding result has no latitude or no longitude, or when one of the three daily arrays
  is not there (the daily section included) or has no index-0 element, the lookup returns
  None.
\<close>

theorem summary_is_complete:
  "(get_weather_data w city = Inr v \<and> v \<noteq> JNull \<longrightarrow>
      (\<exists>loc lat lon maxs mins probs tmax tmin pp.
           first_result w (api_geo_url city) = Some (JObj loc)
         \<and> map_of loc ''latitude'' = Some lat \<and> map_of loc ''longitude'' = Some lon
         \<and> daily_array w lat lon ''temperature_2m_max'' = Some maxs \<and> py_getitem0 maxs = Inr tmax
         \<and> daily_array w lat lon ''temperature_2m_min'' = Some mins \<and> py_getitem0 mins = Inr tmin
         \<and> daily_array w lat lon ''precipitation_probability_max'' = Some probs
         \<and> py_getitem0 probs = Inr pp
         \<and> v = JObj [(''city'', JStr city),
                     (''country'', case map_of loc ''country'' of Some c \<Rightarrow> c | None \<Rightarrow> JStr []),
                     (''temp_max'', tmax), (''temp_min'', tmin), (''precip_prob'', pp)]))
   \<and> (first_result w (api_geo_url city) = Some (JObj place1)
        \<and> (map_of place1 ''latitude'' = None \<or> map_of place1 ''longitude'' = None)
      \<longrightarrow> get_weather_data w city = Inr JNull)
   \<and> (first_result w (api_geo_url city) = Some (JObj place2)
        \<and> map_of place2 ''latitude'' = Some lat2 \<and> map_of place2 ''longitude'' = Some lon2
        \<and> (\<exists>k \<in> set daily_keys.
              daily_array w lat2 lon2 k = None
            \<or> (\<exists>a e. daily_array w lat2 lon2 k = Some a \<and> py_getitem0 a = Inl e))
      \<longrightarrow> get_weather_data w city = Inr JNull)"
proof (intro conjI impI)
  assume "get_weather_data w city = Inr v \<and> v \<noteq> JNull"
  then have "get_weather_data_try w city = Inr v" "v \<noteq> JNull"
    using get_weather_data_success by blast+
  then show "\<exists>loc lat lon maxs mins probs tmax tmin pp.
           first_result w (api_geo_url city) = Some (JObj loc)
         \<and> map_of loc ''latitude'' = Some lat \<and> map_of loc ''longitude'' = Some lon
         \<and> daily_array w lat lon ''temperature_2m_max'' = Some maxs \<and> py_getitem0 maxs = Inr tmax
         \<and> daily_array w lat lon ''temperature_2m_min'' = Some mins \<and> py_getitem0 mins = Inr tmin
         \<and> daily_array w lat lon ''precipitation_probability_max'' = Some probs
         \<and> py_getitem0 probs = Inr pp
         \<and> v = JObj [(''city'', JStr city),
                     (''country'', case map_of loc ''country'' of Some c \<Rightarrow> c | None \<Rightarrow> JStr []),
                     (''temp_max'', tmax), (''temp_min'', tmin), (''precip_prob'', pp)]"
    by (rule get_weather_data_try_success)
next
  assume a: "first_result w (api_geo_url city) = Some (JObj place1)
        \<and> (map_of place1 ''latitude'' = None \<or> map_of place1 ''longitude'' = None)"
  show "get_weather_data w city = Inr JNull"
  proof (rule ccontr)
    assume "get_weather_data w city \<noteq> Inr JNull"
    then obtain u where u: "get_weather_data_try w city = Inr u" "u \<noteq> JNull"
      using get_weather_data_cases [of w city] by auto
    from get_weather_data_try_success [OF u] a show False
      by auto
  qed
next
  assume a: "first_result w (api_geo_url city) = Some (JObj place2)
        \<and> map_of place2 ''latitude'' = Some lat2 \<and> map_of place2 ''longitude'' = Some lon2
        \<and> (\<exists>k \<in> set daily_keys.
              daily_array w lat2 lon2 k = None
            \<or> (\<exists>a e. daily_array w lat2 lon2 k = Some a \<and> py_getitem0 a = Inl e))"
  show "get_weather_data w city = Inr JNull"
  proof (rule ccontr)
    assume "get_weather_data w city \<noteq> Inr JNull"
    then obtain u where u: "get_weather_data_try w city = Inr u" "u \<noteq> JNull"
      using get_weather_data_cases [of w city] by auto
    from get_weather_data_try_success [OF u] a
    obtain maxs mins probs tmax tmin pp where
      d: "daily_array w lat2 lon2 ''temperature_2m_max'' = Some maxs" "py_getitem0 maxs = Inr tmax"
         "daily_array w lat2 lon2 ''temperature_2m_min'' = Some mins" "py_getitem0 mins = Inr tmin"
         "daily_array w lat2 lon2 ''precipitation_probability_max'' = Some probs"
         "py_getitem0 probs = Inr pp"
      by auto
    from a have "\<exists>k \<in> set daily_keys.
              daily_array w lat2 lon2 k = None
            \<or> (\<exists>a e. daily_array w lat2 lon2 k = Some a \<and> py_getitem0 a = Inl e)"
      by blast
    with d show False
      by (auto simp: daily_keys_def)
  qed
qed

theorem summary_is_complete_witness:
  "get_weather_data paris_web ''Paris''
     = Inr (JObj [(''city'', JStr ''Paris''), (''country'', JStr ''France''),
                  (''temp_max'', JFloat ''21.5''), (''temp_min'', JFloat ''12.3''),
                  (''precip_prob'', JInt 30)])
   \<and> (\<exists>loc lat lon maxs mins probs tmax tmin pp.
           first_result paris_web (api_geo_url ''Paris'') = Some (JObj loc)
         \<and> map_of loc ''latitude'' = Some lat \<and> map_of loc ''longitude'' = Some lon
         \<and> daily_array paris_web lat lon ''temperature_2m_max'' = Some maxs
         \<and> py_getitem0 maxs = Inr tmax
         \<and> daily_array paris_web lat lon ''temperature_2m_min'' = Some mins
         \<and> py_getitem0 mins = Inr tmin
         \<and> daily_array paris_web lat lon ''precipitation_probability_max'' = Some probs
         \<and> py_getitem0 probs = Inr pp
         \<and> JObj [(''city'', JStr ''Paris''), (''country'', JStr ''France''),
                  (''temp_max'', JFloat ''21.5''), (''temp_min'', JFloat ''12.3''),
                  (''precip_prob'', JInt 30)]
           = JObj [(''city'', JStr ''Paris''),
                     (''country'', case map_of loc ''country'' of Some c \<Rightarrow> c | None \<Rightarrow> JStr []),
                     (''temp_max'', tmax), (''temp_min'', tmin), (''precip_prob'', pp)])
   \<and> first_result no_longitude_web (api_geo_url ''Paris'') = Some (JObj no_longitude)
   \<and> map_of no_longitude ''longitude'' = None
   \<and> get_weather_data no_longitude_web ''Paris'' = Inr JNull
   \<and> daily_array no_daily_web (JFloat ''48.85341'') (JFloat ''2.3488'') ''temperature_2m_min'' = None
   \<and> get_weather_data no_daily_web ''Paris'' = Inr JNull
   \<and> daily_array empty_days_web (JFloat ''48.85341'') (JFloat ''2.3488'')
        ''precipitation_probability_max'' = Some (JArr [])
   \<and> py_getitem0 (JArr []) = Inl (IndexError ''list index out of range'')
   \<and> get_weather_data empty_days_web ''Paris'' = Inr JNull"
proof -
  have p: "get_weather_data paris_web ''Paris''
     = Inr (JObj [(''city'', JStr ''Paris''), (''country'', JStr ''France''),
                  (''temp_max'', JFloat ''21.5''), (''temp_min'', JFloat ''12.3''),
                  (''precip_prob'', JInt 30)])"
    by code_simp
  have n: "JObj [(''city'', JStr ''Paris''), (''country'', JStr ''France''),
                  (''temp_max'', JFloat ''21.5''), (''temp_min'', JFloat ''12.3''),
                  (''precip_prob'', JInt 30)] \<noteq> JNull"
    by simp
  note s = summary_is_complete [of paris_web "''Paris''"
      "JObj [(''city'', JStr ''Paris''), (''country'', JStr ''France''),
                  (''temp_max'', JFloat ''21.5''), (''temp_min'', JFloat ''12.3''),
                  (''precip_prob'', JInt 30)]", THEN conjunct1, rule_format, OF conjI, OF p n]
  have lat: "map_of paris ''latitude'' = Some (JFloat ''48.85341'')"
    and lon: "map_of paris ''longitude'' = Some (JFloat ''2.3488'')"
    by code_simp+
  have l1: "first_result no_longitude_web (api_geo_url ''Paris'') = Some (JObj no_longitude)"
    by code_simp
  have l2: "map_of no_longitude ''longitude'' = None"
    by code_simp
  have l3: "get_weather_data no_longitude_web ''Paris'' = Inr JNull"
    using summary_is_complete [of no_longitude_web "''Paris''" _ no_longitude] l1 l2 by blast
  have d1: "first_result no_daily_web (api_geo_url ''Paris'') = Some (JObj paris)"
    by code_simp
  have d2: "daily_array no_daily_web (JFloat ''48.85341'') (JFloat ''2.3488'') ''temperature_2m_min''
              = None"
    by code_simp
  have k2: "''temperature_2m_min'' \<in> set daily_keys"
    by (simp add: daily_keys_def)
  have d3: "get_weather_data no_daily_web ''Paris'' = Inr JNull"
    using summary_is_complete [of no_daily_web "''Paris''" _ _ paris "JFloat ''48.85341''"
        "JFloat ''2.3488''"] d1 d2 k2 lat lon by blast
  have e1: "first_result empty_days_web (api_geo_url ''Paris'') = Some (JObj paris)"
    by code_simp
  have e2: "daily_array empty_days_web (JFloat ''48.85341'') (JFloat ''2.3488'')
        ''precipitation_probability_max'' = Some (JArr [])"
    by code_simp
  have e3: "py_getitem0 (JArr []) = Inl (IndexError ''list index out of range'')"
    by (simp add: py_getitem0_def)
  have k3: "''precipitation_probability_max'' \<in> set daily_keys"
    by (simp add: daily_keys_def)
  have e4: "get_weather_data empty_days_web ''Paris'' = Inr JNull"
    using summary_is_complete [of empty_days_web "''Paris''" _ _ paris "JFloat ''48.85341''"
        "JFloat ''2.3488''"] e1 e2 e3 k3 lat lon by blast
  show ?thesis
    by (intro conjI p s l1 l2 l3 d2 d3 e2 e3 e4)
qed

text \<open>
  C3 as stated fails for the country: the first geocoding result has no country, and the
  lookup returns a summary whose country is the empty string.
\<close>

theorem missing_country_counterexample:
  "map_of null_island ''country'' = None
   \<and> first_result no_country_web (api_geo_url ''Null Island'') = Some (JObj null_island)
   \<and> get_weather_data no_country_web ''Null Island''
       = Inr (JObj [(''city'', JStr ''Null Island''), (''country'', JStr []),
                    (''temp_max'', JInt 29), (''temp_min'', JInt 27), (''precip_prob'', JInt 80)])"
  by code_simp

text \<open>
  C4. The lookup returns a summary exactly when the first geocoding result gives the
  coordinates and each of the three daily arrays of the forecast for them has an index-0
  element, and the summary's temp\_max, temp\_min and precip\_prob are then those three
  elements, whatever they are: nothing is computed from them and no order between the
  maximum and the minimum is required.
\<close>

theorem summary_passes_values_through:
  "get_weather_data w city = Inr v \<and> v \<noteq> JNull \<longleftrightarrow>
     (\<exists>loc lat lon maxs mins probs tmax tmin pp.
           first_result w (api_geo_url city) = Some (JObj loc)
         \<and> map_of loc ''latitude'' = Some lat \<and> map_of loc ''longitude'' = Some lon
         \<and> daily_array w lat lon ''temperature_2m_max'' = Some maxs \<and> py_getitem0 maxs = Inr tmax
         \<and> daily_array w lat lon ''temperature_2m_min'' = Some mins \<and> py_getitem0 mins = Inr tmin
         \<and> daily_array w lat lon ''precipitation_probability_max'' = Some probs
         \<and> py_getitem0 probs = Inr pp
         \<and> v = JObj [(''city'', JStr city),
                     (''country'', case map_of loc ''country'' of Some c \<Rightarrow> c | None \<Rightarrow> JStr []),
                     (''temp_max'', tmax), (''temp_min'', tmin), (''precip_prob'', pp)])"
  (is "?L \<longleftrightarrow> ?R")
proof
  assume ?L
  then have "get_weather_data_try w city = Inr v" "v \<noteq> JNull"
    using get_weather_data_success by blast+
  then show ?R
    by (rule get_weather_data_try_success)
next
  assume ?R
  then show ?L
    using get_weather_data_direct by fastforce
qed

theorem summary_passes_values_through_witness:
  "daily_array inverted_web (JFloat ''48.85341'') (JFloat ''2.3488'') ''temperature_2m_max''
     = Some (JArr [JInt 5, JInt 20])
   \<and> daily_array inverted_web (JFloat ''48.85341'') (JFloat ''2.3488'') ''temperature_2m_min''
     = Some (JArr [JInt 10, JInt 8])
   \<and> daily_array inverted_web (JFloat ''48.85341'') (JFloat ''2.3488'')
        ''precipitation_probability_max'' = Some (JArr [JNull])
   \<and> get_weather_data inverted_web ''Paris''
     = Inr (JObj [(''city'', JStr ''Paris''), (''country'', JStr ''France''),
                  (''temp_max'', JInt 5), (''temp_min'', JInt 10), (''precip_prob'', JNull)])"
proof -
  have g: "first_result inverted_web (api_geo_url ''Paris'') = Some (JObj paris)"
    by code_simp
  have lat: "map_of paris ''latitude'' = Some (JFloat ''48.85341'')"
    and lon: "map_of paris ''longitude'' = Some (JFloat ''2.3488'')"
    and co: "(case map_of paris ''country'' of Some c \<Rightarrow> c | None \<Rightarrow> JStr []) = JStr ''France''"
    by code_simp+
  have d1: "daily_array inverted_web (JFloat ''48.85341'') (JFloat ''2.3488'') ''temperature_2m_max''
     = Some (JArr [JInt 5, JInt 20])"
    by code_simp
  have d2: "daily_array inverted_web (JFloat ''48.85341'') (JFloat ''2.3488'') ''temperature_2m_min''
     = Some (JArr [JInt 10, JInt 8])"
    by code_simp
  have d3: "daily_array inverted_web (JFloat ''48.85341'') (JFloat ''2.3488'')
        ''precipitation_probability_max'' = Some (JArr [JNull])"
    by code_simp
  have i1: "py_getitem0 (JArr [JInt 5, JInt 20]) = Inr (JInt 5)"
    and i2: "py_getitem0 (JArr [JInt 10, JInt 8]) = Inr (JInt 10)"
    and i3: "py_getitem0 (JArr [JNull]) = Inr JNull"
    by (simp_all add: py_getitem0_def)
  have "\<exists>loc lat lon maxs mins probs tmax tmin pp.
           first_result inverted_web (api_geo_url ''Paris'') = Some (JObj loc)
         \<and> map_of loc ''latitude'' = Some lat \<and> map_of loc ''longitude'' = Some lon
         \<and> daily_array inverted_web lat lon ''temperature_2m_max'' = Some maxs \<and> py_getitem0 maxs = Inr tmax
         \<and> daily_array inverted_web lat lon ''temperature_2m_min'' = Some mins \<and> py_getitem0 mins = Inr tmin
         \<and> daily_array inverted_web lat lon ''precipitation_probability_max'' = Some probs
         \<and> py_getitem0 probs = Inr pp
         \<and> JObj [(''city'', JStr ''Paris''), (''country'', JStr ''France''),
                  (''temp_max'', JInt 5), (''temp_min'', JInt 10), (''precip_prob'', JNull)]
            = JObj [(''city'', JStr ''Paris''),
                     (''country'', case map_of loc ''country'' of Some c \<Rightarrow> c | None \<Rightarrow> JStr []),
                     (''temp_max'', tmax), (''temp_min'', tmin), (''precip_prob'', pp)]"
    using g lat lon co d1 d2 d3 i1 i2 i3 by (intro exI conjI) (assumption | simp only:)+
  then have "get_weather_data inverted_web ''Paris''
     = Inr (JObj [(''city'', JStr ''Paris''), (''country'', JStr ''France''),
                  (''temp_max'', JInt 5), (''temp_min'', JInt 10), (''precip_prob'', JNull)])"
    using summary_passes_values_through [of inverted_web "''Paris''"
      "JObj [(''city'', JStr ''Paris''), (''country'', JStr ''France''),
                  (''temp_max'', JInt 5), (''temp_min'', JInt 10), (''precip_prob'', JNull)]"]
    by blast
  then show ?thesis
    by (intro conjI d1 d2 d3)
qed

text \<open>
  C10. The city of a summary is the string the caller gave, character for character; the
  name under which the geocoder lists the place is not read. Only the country comes from
  the first geocoding result. The sentence of the agent tool embeds the caller's string
  in the same way.
\<close>

theorem city_is_the_callers_string:
  "(get_weather_data w city = Inr v \<and> v \<noteq> JNull
      \<longrightarrow> py_getitem v ''city'' = Inr (JStr city)
        \<and> (\<exists>loc. first_result w (api_geo_url city) = Some (JObj loc)
              \<and> py_getitem v ''country'' = py_get (JObj loc) ''country'' (JStr [])))
   \<and> (first_result w (tool_geo_url city) = Some (JObj loc)
        \<and> map_of loc ''latitude'' = Some lat \<and> map_of loc ''longitude'' = Some lon
        \<and> daily_array w lat lon ''temperature_2m_max'' = Some maxs \<and> py_getitem0 maxs = Inr tmax
        \<and> daily_array w lat lon ''temperature_2m_min'' = Some mins \<and> py_getitem0 mins = Inr tmin
        \<and> daily_array w lat lon ''precipitation_probability_max'' = Some probs
        \<and> py_getitem0 probs = Inr pp
      \<longrightarrow> (\<exists>country. py_get (JObj loc) ''country'' (JStr []) = Inr country
            \<and> get_weather w city date =
                Inr (''Weather in '' @ city @ '' ('' @ py_str country @ ''): Max '' @ py_str tmax
                     @ degree @ ''C, Min '' @ py_str tmin @ degree @ ''C, Rain chance: ''
                     @ py_str pp @ ''%.'')))"
proof (intro conjI impI)
  assume a: "get_weather_data w city = Inr v \<and> v \<noteq> JNull"
  then have "get_weather_data_try w city = Inr v" "v \<noteq> JNull"
    using get_weather_data_success by blast+
  from get_weather_data_try_success [OF this]
  obtain loc tmax tmin pp where
    "first_result w (api_geo_url city) = Some (JObj loc)"
    "v = JObj [(''city'', JStr city),
               (''country'', case map_of loc ''country'' of Some c \<Rightarrow> c | None \<Rightarrow> JStr []),
               (''temp_max'', tmax), (''temp_min'', tmin), (''precip_prob'', pp)]"
    by blast
  then show "py_getitem v ''city'' = Inr (JStr city)"
    and "\<exists>loc. first_result w (api_geo_url city) = Some (JObj loc)
              \<and> py_getitem v ''country'' = py_get (JObj loc) ''country'' (JStr [])"
    by (auto simp: py_getitem_def py_get_def)
next
  assume a: "first_result w (tool_geo_url city) = Some (JObj loc)
        \<and> map_of loc ''latitude'' = Some lat \<and> map_of loc ''longitude'' = Some lon
        \<and> daily_array w lat lon ''temperature_2m_max'' = Some maxs \<and> py_getitem0 maxs = Inr tmax
        \<and> daily_array w lat lon ''temperature_2m_min'' = Some mins \<and> py_getitem0 mins = Inr tmin
        \<and> daily_array w lat lon ''precipitation_probability_max'' = Some probs
        \<and> py_getitem0 probs = Inr pp"
  have "get_weather_try w city date =
           Inr (weather_sentence city (case map_of loc ''country'' of Some c \<Rightarrow> c | None \<Rightarrow> JStr [])
                  tmax tmin pp)"
    by (rule get_weather_try_direct [where maxs = maxs and mins = mins and probs = probs
          and lat = lat and lon = lon]) (use a in simp_all)
  then show "\<exists>country. py_get (JObj loc) ''country'' (JStr []) = Inr country
            \<and> get_weather w city date =
                Inr (''Weather in '' @ city @ '' ('' @ py_str country @ ''): Max '' @ py_str tmax
                     @ degree @ ''C, Min '' @ py_str tmin @ degree @ ''C, Rain chance: ''
                     @ py_str pp @ ''%.'')"
    by (simp add: get_weather_of_try weather_sentence_def py_get_def)
qed

theorem city_is_the_callers_string_witness:
  "py_getitem (JObj paris) ''name'' = Inr (JStr ''Paris'')
   \<and> get_weather_data paris_web ''paris''
       = Inr (JObj [(''city'', JStr ''paris''), (''country'', JStr ''France''),
                    (''temp_max'', JFloat ''21.5''), (''temp_min'', JFloat ''12.3''),
                    (''precip_prob'', JInt 30)])
   \<and> py_getitem (JObj [(''city'', JStr ''paris''), (''country'', JStr ''France''),
                    (''temp_max'', JFloat ''21.5''), (''temp_min'', JFloat ''12.3''),
                    (''precip_prob'', JInt 30)]) ''city'' = Inr (JStr ''paris'')
   \<and> get_weather paris_web ''paris'' ''today''
       = Inr (''Weather in paris (France): Max 21.5'' @ degree @ ''C, Min 12.3'' @ degree
              @ ''C, Rain chance: 30%.'')"
proof -
  have nm: "py_getitem (JObj paris) ''name'' = Inr (JStr ''Paris'')"
    by code_simp
  have p: "get_weather_data paris_web ''paris''
       = Inr (JObj [(''city'', JStr ''paris''), (''country'', JStr ''France''),
                    (''temp_max'', JFloat ''21.5''), (''temp_min'', JFloat ''12.3''),
                    (''precip_prob'', JInt 30)])"
    by code_simp
  have c: "py_getitem (JObj [(''city'', JStr ''paris''), (''country'', JStr ''France''),
                    (''temp_max'', JFloat ''21.5''), (''temp_min'', JFloat ''12.3''),
                    (''precip_prob'', JInt 30)]) ''city'' = Inr (JStr ''paris'')"
    using city_is_the_callers_string [of paris_web "''paris''"
       "JObj [(''city'', JStr ''paris''), (''country'', JStr ''France''),
                    (''temp_max'', JFloat ''21.5''), (''temp_min'', JFloat ''12.3''),
                    (''precip_prob'', JInt 30)]"] p
    by blast
  have g: "first_result paris_web (tool_geo_url ''paris'') = Some (JObj paris)"
    by code_simp
  have lat: "map_of paris ''latitude'' = Some (JFloat ''48.85341'')"
    and lon: "map_of paris ''longitude'' = Some (JFloat ''2.3488'')"
    by code_simp+
  have co: "py_get (JObj paris) ''country'' (JStr []) = Inr (JStr ''France'')"
    by code_simp
  have d1: "daily_array paris_web (JFloat ''48.85341'') (JFloat ''2.3488'') ''temperature_2m_max''
       = Some (JArr [JFloat ''21.5'', JFloat ''19.0''])"
    by code_simp
  have d2: "daily_array paris_web (JFloat ''48.85341'') (JFloat ''2.3488'') ''temperature_2m_min''
       = Some (JArr [JFloat ''12.3'', JInt 11])"
    by code_simp
  have d3: "daily_array paris_web (JFloat ''48.85341'') (JFloat ''2.3488'')
              ''precipitation_probability_max'' = Some (JArr [JInt 30, JInt 10])"
    by code_simp
  have i1: "py_getitem0 (JArr [JFloat ''21.5'', JFloat ''19.0'']) = Inr (JFloat ''21.5'')"
    and i2: "py_getitem0 (JArr [JFloat ''12.3'', JInt 11]) = Inr (JFloat ''12.3'')"
    and i3: "py_getitem0 (JArr [JInt 30, JInt 10]) = Inr (JInt 30)"
    by (simp_all add: py_getitem0_def)
  have s: "py_str (JStr ''France'') = ''France''" "py_str (JFloat ''21.5'') = ''21.5''"
    "py_str (JFloat ''12.3'') = ''12.3''" "py_str (JInt 30) = ''30''"
    by code_simp+
  from city_is_the_callers_string [of paris_web "''paris''" _ paris "JFloat ''48.85341''"
      "JFloat ''2.3488''" "JArr [JFloat ''21.5'', JFloat ''19.0'']" "JFloat ''21.5''"
      "JArr [JFloat ''12.3'', JInt 11]" "JFloat ''12.3''" "JArr [JInt 30, JInt 10]" "JInt 30"
      "''today''"] g lat lon d1 d2 d3 i1 i2 i3
  obtain country where "py_get (JObj paris) ''country'' (JStr []) = Inr country"
    and "get_weather paris_web ''paris'' ''today'' =
                Inr (''Weather in '' @ ''paris'' @ '' ('' @ py_str country @ ''): Max ''
                     @ py_str (JFloat ''21.5'')
                     @ degree @ ''C, Min '' @ py_str (JFloat ''12.3'') @ degree @ ''C, Rain chance: ''
                     @ py_str (JInt 30) @ ''%.'')"
    by blast
  with co s have t: "get_weather paris_web ''paris'' ''today''
       = Inr (''Weather in paris (France): Max 21.5'' @ degree @ ''C, Min 12.3'' @ degree
              @ ''C, Rain chance: 30%.'')"
    by simp
  show ?thesis
    by (intro conjI nm p c t)
qed

section \<open>The endpoint \<^verbatim>\<open>POST /travel_advice\<close>\<close>



section \<open>The geocoding URL\<close>

lemma replace_space:
  "replace_from '' '' ''%20'' 0 s = concat (map (\<lambda>c. if c = CHR '' '' then ''%20'' else [c]) s)"
  by (induction s) (simp_all add: starts_with_def)

lemma no_space_left:
  "CHR '' '' \<notin> set (concat (map (\<lambda>c. if c = CHR '' '' then ''%20'' else [c]) s))"
  by (induction s) simp_all

text \<open>
  C5, as the code has it. \<open>get_weather_data\<close> in main.py puts the city name into the
  geocoding URL with every space replaced by \<^verbatim>\<open>%20\<close>, so that no space of the name
  is left. The agent tool \<open>get_weather\<close> puts the name into the URL string as it is
  and hands that string to the HTTP client.
\<close>

theorem geo_urls_embed_city:
  "api_geo_url city =
     ''https://geocoding-api.open-meteo.com/v1/search?name=''
     @ concat (map (\<lambda>c. if c = CHR '' '' then ''%20'' else [c]) city)
     @ ''&count=1&language=en&format=json''
   \<and> CHR '' '' \<notin> set (api_geo_url city)
   \<and> tool_geo_url city =
     ''https://geocoding-api.open-meteo.com/v1/search?name='' @ city
     @ ''&count=1&language=en&format=json''"
proof (intro conjI)
  show u: "api_geo_url city =
     ''https://geocoding-api.open-meteo.com/v1/search?name=''
     @ concat (map (\<lambda>c. if c = CHR '' '' then ''%20'' else [c]) city)
     @ ''&count=1&language=en&format=json''"
    by (simp add: api_geo_url_def str_replace_def replace_space)
  have "CHR '' '' \<notin> set (''https://geocoding-api.open-meteo.com/v1/search?name='')"
    and "CHR '' '' \<notin> set (''&count=1&language=en&format=json'')"
    by simp_all
  then show "CHR '' '' \<notin> set (api_geo_url city)"
    unfolding u using no_space_left [of city] by (simp only: set_append Un_iff) blast
  show "tool_geo_url city =
     ''https://geocoding-api.open-meteo.com/v1/search?name='' @ city
     @ ''&count=1&language=en&format=json''"
    by (simp add: tool_geo_url_def)
qed

text \<open>
  C5 as stated fails for the agent tool: for the city "New York" the URL the tool builds
  holds the name with its space, where main.py writes \<^verbatim>\<open>New%20York\<close>.
\<close>

theorem tool_geo_url_space_counterexample:
  "tool_geo_url ''New York''
     = ''https://geocoding-api.open-meteo.com/v1/search?name=New York&count=1&language=en&format=json''
   \<and> api_geo_url ''New York''
     = ''https://geocoding-api.open-meteo.com/v1/search?name=New%20York&count=1&language=en&format=json''
   \<and> CHR '' '' \<in> set (tool_geo_url ''New York'')"
  by code_simp

section \<open>formatMarkdown\<close>

lemma bold_loop_alternates:
  "bold_loop i parts boldLine =
     boldLine @ concat (map (\<lambda>j. parts ! j
                               @ (if j < length parts - 1
                                  then (if (i + j) mod 2 = 0 then ''<strong>'' else ''</strong>'')
                                  else []))
                            [0..<length parts])"
proof (induction parts arbitrary: i boldLine)
  case Nil
  then show ?case by simp
next
  case (Cons p ps)
  have "ps \<noteq> [] \<longleftrightarrow> 0 < length ps" by simp
  then show ?case
    by (simp add: Cons.IH map_upt_Suc less_diff_conv del: upt_Suc length_greater_0_conv
          cong: if_cong)
qed

text \<open>
  C7. On the three lines "\#\#\# Clothing", "* Bring a coat" and "**Note:** stay warm",
  \<open>formatMarkdown\<close> gives the header \<^verbatim>\<open><h3>Clothing</h3>\<close>, the one list item
  \<^verbatim>\<open><li>Bring a coat</li>\<close>, and the third line with \<^verbatim>\<open><strong>\<close> opened before
  "Note:" and closed after it. In general, a line split on "**" is put together again with
  \<^verbatim>\<open><strong>\<close> after each segment of even index and \<^verbatim>\<open></strong>\<close> after each segment
  of odd index, the last segment excepted.
\<close>

theorem formatMarkdown_example:
  "formatMarkdown (''### Clothing'' @ [CHR 0x0A] @ ''* Bring a coat'' @ [CHR 0x0A]
                   @ ''**Note:** stay warm'')
     = ''<h3>Clothing</h3><li>Bring a coat</li><strong>Note:</strong> stay warm<br>''
   \<and> js_split ''**Note:** stay warm'' ''**'' = ['''', ''Note:'', '' stay warm'']
   \<and> bold_loop 0 parts [] =
       concat (map (\<lambda>i. parts ! i
                          @ (if i < length parts - 1
                             then (if i mod 2 = 0 then ''<strong>'' else ''</strong>'')
                             else []))
                   [0..<length parts])"
proof (intro conjI)
  show "formatMarkdown (''### Clothing'' @ [CHR 0x0A] @ ''* Bring a coat'' @ [CHR 0x0A]
                   @ ''**Note:** stay warm'')
     = ''<h3>Clothing</h3><li>Bring a coat</li><strong>Note:</strong> stay warm<br>''"
    by code_simp
  show "js_split ''**Note:** stay warm'' ''**'' = ['''', ''Note:'', '' stay warm'']"
    by code_simp
  show "bold_loop 0 parts [] =
       concat (map (\<lambda>i. parts ! i
                          @ (if i < length parts - 1
                             then (if i mod 2 = 0 then ''<strong>'' else ''</strong>'')
                             else []))
                   [0..<length parts])"
    by (simp add: bold_loop_alternates cong: if_cong)
qed

end
